theory Spec2Isabelle
  imports Complex_Main "HOL-Library.Multiset"
begin

section \<open>JavaScript strings and errors\<close>

text \<open>
  A thrown JavaScript error is a value: its \<open>name\<close> and its \<open>message\<close>.
  A function that can throw returns \<open>js_error + 'a\<close>, with \<open>Inl\<close> the error.
\<close>

datatype js_error = Err (err_name: string) (err_message: string)

text \<open>\<open>String.prototype.startsWith\<close>, \<open>includes\<close> and \<open>endsWith\<close>.\<close>

fun starts_with :: "'a list \<Rightarrow> 'a list \<Rightarrow> bool" where
  "starts_with s [] = True"
| "starts_with [] (c # t) = False"
| "starts_with (d # s) (c # t) = (d = c \<and> starts_with s t)"

fun str_includes :: "'a list \<Rightarrow> 'a list \<Rightarrow> bool" where
  "str_includes [] t = (t = [])"
| "str_includes (d # s) t = (starts_with (d # s) t \<or> str_includes s t)"

definition ends_with :: "'a list \<Rightarrow> 'a list \<Rightarrow> bool" where
  "ends_with s t = starts_with (rev s) (rev t)"

text \<open>Decimal numerals, as template literals and string concatenation print numbers.\<close>

definition digit_char :: "nat \<Rightarrow> char" where
  "digit_char d =
     (if d = 0 then CHR ''0'' else if d = 1 then CHR ''1'' else if d = 2 then CHR ''2''
      else if d = 3 then CHR ''3'' else if d = 4 then CHR ''4'' else if d = 5 then CHR ''5''
      else if d = 6 then CHR ''6'' else if d = 7 then CHR ''7'' else if d = 8 then CHR ''8''
      else CHR ''9'')"

fun show_nat :: "nat \<Rightarrow> string" where
  "show_nat n = (if n < 10 then [digit_char n] else show_nat (n div 10) @ [digit_char (n mod 10)])"

declare show_nat.simps [simp del]

definition show_int :: "int \<Rightarrow> string" where
  "show_int i = (if i < 0 then ''-'' @ show_nat (nat (- i)) else show_nat (nat i))"

text \<open>\<open>Array.prototype.join\<close> for strings.\<close>

fun join :: "string \<Rightarrow> string list \<Rightarrow> string" where
  "join sep [] = []"
| "join sep [s] = s"
| "join sep (s # t # ss) = s @ sep @ join sep (t # ss)"

section \<open>JavaScript values\<close>

text \<open>
  The values \<open>JSON.parse\<close> produces, and \<open>undefined\<close>. Numbers are the integers
  (timestamps and counters are the only numbers the program computes with). An object is
  the list of its own properties in the order \<open>Object.keys\<close> lists them, which is the
  order of insertion for keys that are not array indices.
\<close>

datatype jsval =
    JUndefined
  | JNull
  | JBool bool
  | JNum int
  | JStr string
  | JArr "jsval list"
  | JObj "(string \<times> jsval) list"

text \<open>What \<open>if (v)\<close> and \<open>!v\<close> test.\<close>

fun truthy :: "jsval \<Rightarrow> bool" where
  "truthy JUndefined = False"
| "truthy JNull = False"
| "truthy (JBool b) = b"
| "truthy (JNum n) = (n \<noteq> 0)"
| "truthy (JStr s) = (s \<noteq> [])"
| "truthy (JArr xs) = True"
| "truthy (JObj ps) = True"

fun typeof :: "jsval \<Rightarrow> string" where
  "typeof JUndefined = ''undefined''"
| "typeof JNull = ''object''"
| "typeof (JBool b) = ''boolean''"
| "typeof (JNum n) = ''number''"
| "typeof (JStr s) = ''string''"
| "typeof (JArr xs) = ''object''"
| "typeof (JObj ps) = ''object''"

definition nullish :: "jsval \<Rightarrow> bool" where
  "nullish v = (v = JUndefined \<or> v = JNull)"

text \<open>
  \<open>v[k]\<close> and \<open>v.k\<close> for a receiver that is neither \<open>null\<close> nor \<open>undefined\<close>. The
  property names this program reads from data (\<open>id\<close>, \<open>username\<close>, \<open>completed\<close>, ...)
  are not properties of arrays, strings, numbers or booleans, which give \<open>undefined\<close>.
\<close>

fun js_get :: "jsval \<Rightarrow> string \<Rightarrow> jsval" where
  "js_get (JObj ps) k = (case map_of ps k of Some v \<Rightarrow> v | None \<Rightarrow> JUndefined)"
| "js_get v k = JUndefined"

text \<open>The same read for any receiver: on \<open>null\<close> and \<open>undefined\<close> it throws.\<close>

definition get_prop :: "jsval \<Rightarrow> string \<Rightarrow> js_error + jsval" where
  "get_prop v k =
     (if nullish v then Inl (Err ''TypeError'' (''Cannot read properties of null or undefined (reading '' @ k @ '')''))
      else Inr (js_get v k))"

text \<open>
  Writing a property of an object, and of a \<open>Map\<close>: an existing key keeps its place,
  a new key goes to the end.
\<close>

fun alist_set :: "'k \<Rightarrow> 'v \<Rightarrow> ('k \<times> 'v) list \<Rightarrow> ('k \<times> 'v) list" where
  "alist_set k v [] = [(k, v)]"
| "alist_set k v ((k', v') # ps) = (if k' = k then (k, v) # ps else (k', v') # alist_set k v ps)"

definition alist_delete :: "'k \<Rightarrow> ('k \<times> 'v) list \<Rightarrow> ('k \<times> 'v) list" where
  "alist_delete k ps = filter (\<lambda>p. fst p \<noteq> k) ps"

text \<open>
  The relational operator \<open>n > v\<close> for a number \<open>n\<close>. The operand \<open>v\<close> is converted
  to a number first; \<open>to_number\<close> is the platform's conversion of strings, arrays and
  objects, with \<open>None\<close> for \<open>NaN\<close>, against which every comparison is false.
\<close>

fun js_to_number :: "(jsval \<Rightarrow> int option) \<Rightarrow> jsval \<Rightarrow> int option" where
  "js_to_number to_number JUndefined = None"
| "js_to_number to_number JNull = Some 0"
| "js_to_number to_number (JBool b) = Some (if b then 1 else 0)"
| "js_to_number to_number (JNum n) = Some n"
| "js_to_number to_number v = to_number v"

definition js_gt :: "(jsval \<Rightarrow> int option) \<Rightarrow> int \<Rightarrow> jsval \<Rightarrow> bool" where
  "js_gt to_number n v = (case js_to_number to_number v of None \<Rightarrow> False | Some m \<Rightarrow> n > m)"

definition js_lt :: "(jsval \<Rightarrow> int option) \<Rightarrow> jsval \<Rightarrow> int \<Rightarrow> bool" where
  "js_lt to_number v n = (case js_to_number to_number v of None \<Rightarrow> False | Some m \<Rightarrow> m < n)"

text \<open>
  The conversion to a string that a template literal applies to \<open>${v}\<close>, a property
  access to its key and \<open>setAttribute\<close> to its value. An array is the texts of its
  elements joined by commas, \<open>null\<close> and \<open>undefined\<close> elements being empty. An object
  takes \<open>toString\<close> from \<open>Object.prototype\<close> and is \<open>[object Object]\<close>, unless it
  has a property \<open>toString\<close> of its own: no value of this model is a function, so the
  conversion then finds nothing to call and throws.
\<close>

fun to_string :: "jsval \<Rightarrow> js_error + string"
  and element_strings :: "jsval list \<Rightarrow> js_error + string list" where
  "to_string JUndefined = Inr ''undefined''"
| "to_string JNull = Inr ''null''"
| "to_string (JBool b) = Inr (if b then ''true'' else ''false'')"
| "to_string (JNum n) = Inr (show_int n)"
| "to_string (JStr s) = Inr s"
| "to_string (JArr xs) =
     (case element_strings xs of Inl e \<Rightarrow> Inl e | Inr ss \<Rightarrow> Inr (join '','' ss))"
| "to_string (JObj ps) =
     (if ''toString'' \<in> fst ` set ps
      then Inl (Err ''TypeError'' ''Cannot convert object to primitive value'')
      else Inr ''[object Object]'')"
| "element_strings [] = Inr []"
| "element_strings (x # xs) =
     (case (if x = JUndefined \<or> x = JNull then Inr [] else to_string x) of
        Inl e \<Rightarrow> Inl e
      | Inr s \<Rightarrow> (case element_strings xs of Inl e \<Rightarrow> Inl e | Inr ss \<Rightarrow> Inr (s # ss)))"

section \<open>Teacher authentication (js/teacher-auth.js)\<close>

text \<open>
  The two web storages, each a map from keys to strings. \<open>getItem\<close> gives \<open>null\<close>
  (\<open>None\<close>) for a missing key. Storage calls are taken not to throw.
\<close>

record auth_storage =
  sessionStorage :: "string \<rightharpoonup> string"
  localStorage :: "string \<rightharpoonup> string"

definition sessionKey :: string where
  "sessionKey = ''edulab_teacher_session''"

text \<open>A string or \<open>null\<close> under \<open>!\<close>: \<open>null\<close> and the empty string are falsy.\<close>

fun item_truthy :: "string option \<Rightarrow> bool" where
  "item_truthy None = False"
| "item_truthy (Some s) = (s \<noteq> [])"

definition clearSession :: "auth_storage \<Rightarrow> auth_storage" where
  "clearSession st =
     st\<lparr>sessionStorage := (sessionStorage st)(sessionKey := None, ''edulab_redirect_after_login'' := None),
        localStorage := (localStorage st)(sessionKey := None)\<rparr>"

text \<open>
  The first step of \<open>isLoggedIn\<close>: the item of \<open>sessionStorage\<close>, or else the item of
  \<open>localStorage\<close>, which is then copied to \<open>sessionStorage\<close>.
\<close>

definition read_session :: "auth_storage \<Rightarrow> string option \<times> auth_storage" where
  "read_session st =
     (let sessionData = sessionStorage st sessionKey in
      if \<not> item_truthy sessionData then
        (let sessionData = localStorage st sessionKey in
         if item_truthy sessionData
         then (sessionData, st\<lparr>sessionStorage := (sessionStorage st)(sessionKey := sessionData)\<rparr>)
         else (sessionData, st))
      else (sessionData, st))"

text \<open>
  \<open>isLoggedIn\<close>. \<open>parse\<close> is \<open>JSON.parse\<close>, \<open>now\<close> is \<open>Date.now()\<close>. The body of the
  \<open>try\<close> throws when \<open>JSON.parse\<close> does and when the parsed value is \<open>null\<close>
  (reading \<open>session.username\<close>); the \<open>catch\<close> clears the session and returns false.
\<close>

definition isLoggedIn ::
  "(string \<Rightarrow> js_error + jsval) \<Rightarrow> (jsval \<Rightarrow> int option) \<Rightarrow> int \<Rightarrow> auth_storage
     \<Rightarrow> bool \<times> auth_storage" where
  "isLoggedIn parse to_number now st =
     (case read_session st of (sessionData, st1) \<Rightarrow>
        if \<not> item_truthy sessionData then (False, st1)
        else
          (case parse (the sessionData) of
             Inl error \<Rightarrow> (False, clearSession st1)
           | Inr session \<Rightarrow>
               if nullish session then (False, clearSession st1)
               else if \<not> truthy (js_get session ''username'') \<or> \<not> truthy (js_get session ''loginTime'')
                       \<or> \<not> truthy (js_get session ''expiresAt'')
                 then (False, clearSession st1)
               else if js_gt to_number now (js_get session ''expiresAt'') then (False, clearSession st1)
               else (True, st1)))"

text \<open>Stored sessions used below, with the values \<open>JSON.parse\<close> gives for them.\<close>

definition valid_raw :: string where
  \<open>valid_raw = ''{"username":"teacher","loginTime":1000,"expiresAt":5000}''\<close>

definition expired_raw :: string where
  \<open>expired_raw = ''{"username":"teacher","loginTime":100,"expiresAt":1500}''\<close>

definition blank_raw :: string where
  \<open>blank_raw = ''{"username":"","loginTime":1000,"expiresAt":5000}''\<close>

definition session_obj :: "string \<Rightarrow> int \<Rightarrow> int \<Rightarrow> jsval" where
  "session_obj u l e = JObj [(''username'', JStr u), (''loginTime'', JNum l), (''expiresAt'', JNum e)]"

definition parse_sessions :: "string \<Rightarrow> js_error + jsval" where
  "parse_sessions s =
     (if s = valid_raw then Inr (session_obj ''teacher'' 1000 5000)
      else if s = expired_raw then Inr (session_obj ''teacher'' 100 1500)
      else if s = blank_raw then Inr (session_obj [] 1000 5000)
      else Inl (Err ''SyntaxError'' ''Unexpected token''))"

definition no_number :: "jsval \<Rightarrow> int option" where
  "no_number v = None"

definition two_tabs :: auth_storage where
  "two_tabs =
     \<lparr>sessionStorage = [sessionKey \<mapsto> expired_raw], localStorage = [sessionKey \<mapsto> valid_raw]\<rparr>"

definition blank_user :: auth_storage where
  "blank_user = \<lparr>sessionStorage = [sessionKey \<mapsto> blank_raw], localStorage = Map.empty\<rparr>"

definition new_tab :: auth_storage where
  "new_tab = \<lparr>sessionStorage = Map.empty, localStorage = [sessionKey \<mapsto> valid_raw]\<rparr>"

definition logged_out :: auth_storage where
  "logged_out = \<lparr>sessionStorage = Map.empty, localStorage = Map.empty\<rparr>"

section \<open>Service worker (sw.js)\<close>

text \<open>
  A request as the worker reads it: its method and the parts of \<open>new URL(request.url)\<close>
  that the handlers look at.
\<close>

record url =
  origin :: string
  hostname :: string
  pathname :: string

record request =
  req_method :: string
  req_url :: url

record response =
  ok :: bool
  status :: nat
  statusText :: string
  body :: string

text \<open>The alternatives of the regular expression in \<open>isStaticAsset\<close>.\<close>

definition static_extensions :: "string list" where
  "static_extensions =
     [''css'', ''js'', ''png'', ''jpg'', ''jpeg'', ''gif'', ''svg'', ''ico'',
      ''woff'', ''woff2'', ''ttf'']"

definition isStaticAsset :: "request \<Rightarrow> bool" where
  "isStaticAsset r =
     list_ex (\<lambda>e. ends_with (pathname (req_url r)) (''.'' @ e)) static_extensions"

definition isDataRequest :: "request \<Rightarrow> bool" where
  "isDataRequest r =
     (str_includes (pathname (req_url r)) ''/data/'' \<or> ends_with (pathname (req_url r)) ''.json'')"

definition isPhETRequest :: "request \<Rightarrow> bool" where
  "isPhETRequest r = str_includes (hostname (req_url r)) ''phet.colorado.edu''"

text \<open>
  The fetch event listener either leaves the request to the browser (it returns without
  calling \<open>respondWith\<close>) or answers it with one of four strategies. Its first argument
  is \<open>location.origin\<close>.
\<close>

datatype strategy = NotHandled | CacheFirst | NetworkFirst | NetworkOnly | StaleWhileRevalidate

definition fetch_listener :: "string \<Rightarrow> request \<Rightarrow> strategy" where
  "fetch_listener location_origin r =
     (if req_method r \<noteq> ''GET'' then NotHandled
      else if origin (req_url r) \<noteq> location_origin
              \<and> \<not> str_includes (hostname (req_url r)) ''phet.colorado.edu'' then NotHandled
      else if isStaticAsset r then CacheFirst
      else if isDataRequest r then NetworkFirst
      else if isPhETRequest r then NetworkOnly
      else StaleWhileRevalidate)"

text \<open>
  \<open>cacheFirst\<close>. The environment is the result of \<open>caches.open\<close> (the cache as a map
  from requests to responses, or the error it rejects with) and the network, a function
  that gives a response or the error \<open>fetch\<close> rejects with. The result is the response
  returned, the requests sent to the network and the entries put into the cache.
\<close>

record cache_first_result =
  returned :: response
  fetched :: "request list"
  put_entries :: "(request \<times> response) list"

definition unavailable :: response where
  "unavailable =
     \<lparr>ok = False, status = 503, statusText = ''Service Unavailable'',
      body = ''Offline - Resource not available''\<rparr>"

definition cacheFirst ::
  "(js_error + (request \<rightharpoonup> response)) \<Rightarrow> (request \<Rightarrow> js_error + response) \<Rightarrow> request
     \<Rightarrow> cache_first_result" where
  "cacheFirst opened network r =
     (case opened of
        Inl e \<Rightarrow> \<lparr>returned = unavailable, fetched = [], put_entries = []\<rparr>
      | Inr cache \<Rightarrow>
          (case cache r of
             Some cachedResponse \<Rightarrow> \<lparr>returned = cachedResponse, fetched = [], put_entries = []\<rparr>
           | None \<Rightarrow>
               (case network r of
                  Inl e \<Rightarrow> \<lparr>returned = unavailable, fetched = [r], put_entries = []\<rparr>
                | Inr networkResponse \<Rightarrow>
                    \<lparr>returned = networkResponse, fetched = [r],
                     put_entries = (if ok networkResponse then [(r, networkResponse)] else [])\<rparr>)))"

text \<open>Concrete requests and responses used below.\<close>

definition site :: string where
  "site = ''https://edulab.example''"

definition css_request :: request where
  "css_request =
     \<lparr>req_method = ''GET'',
      req_url = \<lparr>origin = site, hostname = ''edulab.example'', pathname = ''/css/styles.css''\<rparr>\<rparr>"

definition cdn_request :: request where
  "cdn_request =
     \<lparr>req_method = ''GET'',
      req_url = \<lparr>origin = ''https://cdn.example.com'', hostname = ''cdn.example.com'',
                 pathname = ''/lib/chart.js''\<rparr>\<rparr>"

definition page_200 :: response where
  "page_200 = \<lparr>ok = True, status = 200, statusText = ''OK'', body = ''body {}''\<rparr>"

section \<open>PhET integration (js/phet-integration.js)\<close>

subsection \<open>Validation\<close>

text \<open>
  \<open>parse_url\<close> is the platform's \<open>new URL(url)\<close>: \<open>None\<close> when it throws, the parts
  of the parsed URL otherwise.
\<close>

definition isValidPhETUrl :: "(jsval \<Rightarrow> url option) \<Rightarrow> jsval \<Rightarrow> bool" where
  "isValidPhETUrl parse_url u =
     (case parse_url u of
        None \<Rightarrow> False
      | Some urlObj \<Rightarrow>
          hostname urlObj = ''phet.colorado.edu'' \<and> str_includes (pathname urlObj) ''/sims/'')"

definition validateSimulation :: "(jsval \<Rightarrow> url option) \<Rightarrow> jsval \<Rightarrow> js_error + unit" where
  "validateSimulation parse_url simulation =
     (if \<not> truthy simulation \<or> typeof simulation \<noteq> ''object''
      then Inl (Err ''Error'' ''Invalid simulation data'')
      else
        (case find (\<lambda>field. \<not> truthy (js_get simulation field)) [''id'', ''title'', ''phetUrl''] of
           Some field \<Rightarrow> Inl (Err ''Error'' (''Missing required field: '' @ field))
         | None \<Rightarrow>
             if \<not> isValidPhETUrl parse_url (js_get simulation ''phetUrl'')
             then Inl (Err ''Error'' ''Invalid PhET URL'')
             else Inr ()))"

subsection \<open>Loading an iframe\<close>

text \<open>
  The promise of \<open>loadSimulation\<close> as a state machine. The state holds what the closure
  holds: whether each listener is still attached and each timer still pending, the
  progress shown, and the calls of \<open>resolve\<close> and \<open>reject\<close> made so far, in order.
  \<open>setTimeout\<close> and \<open>setInterval\<close> return non-zero handles, so the guards
  \<open>if (loadTimeout)\<close> and \<open>if (progressInterval)\<close> in \<open>cleanup\<close> pass.
\<close>

datatype settlement = Resolved | Rejected js_error

record load_state =
  loadListener :: bool
  errorListener :: bool
  loadTimeout :: bool
  progressInterval :: bool
  progress :: real
  iframeLoaded :: bool
  iframeSrc :: "jsval option"
  settlements :: "settlement list"

definition loadingTimeout :: nat where
  "loadingTimeout = 30000"

text \<open>The state when the executor of the promise has run.\<close>

definition loadSimulation :: "jsval \<Rightarrow> load_state" where
  "loadSimulation simulation =
     \<lparr>loadListener = True, errorListener = True, loadTimeout = True, progressInterval = True,
      progress = 0, iframeLoaded = False, iframeSrc = Some (js_get simulation ''phetUrl''),
      settlements = []\<rparr>"

definition cleanup :: "load_state \<Rightarrow> load_state" where
  "cleanup s =
     s\<lparr>loadTimeout := False, progressInterval := False, loadListener := False,
       errorListener := False\<rparr>"

definition onLoad :: "load_state \<Rightarrow> load_state" where
  "onLoad s = (let s = cleanup s in s\<lparr>iframeLoaded := True, settlements := settlements s @ [Resolved]\<rparr>)"

definition onError :: "string \<Rightarrow> load_state \<Rightarrow> load_state" where
  "onError title s =
     (let s = cleanup s in
      s\<lparr>settlements := settlements s @ [Rejected (Err ''Error'' (''Failed to load simulation: '' @ title))]\<rparr>)"

definition onTimeout :: "load_state \<Rightarrow> load_state" where
  "onTimeout s =
     (let s = cleanup s in
      s\<lparr>settlements := settlements s
          @ [Rejected (Err ''Error'' (''Simulation loading timed out after ''
                @ show_nat (loadingTimeout div 1000) @ '' seconds''))]\<rparr>)"

text \<open>The interval callback; \<open>r\<close> is the value of \<open>Math.random() * 15\<close>.\<close>

definition onProgress :: "real \<Rightarrow> load_state \<Rightarrow> load_state" where
  "onProgress r s = s\<lparr>progress := min (progress s + r) 90\<rparr>"

text \<open>
  What can happen to the iframe and the timers. The event loop runs a handler only while
  its listener is attached or its timer pending.
\<close>

datatype load_event = IframeLoad | IframeError | TimeoutElapsed | IntervalElapsed real

fun deliver :: "string \<Rightarrow> load_state \<Rightarrow> load_event \<Rightarrow> load_state" where
  "deliver title s IframeLoad = (if loadListener s then onLoad s else s)"
| "deliver title s IframeError = (if errorListener s then onError title s else s)"
| "deliver title s TimeoutElapsed = (if loadTimeout s then onTimeout s else s)"
| "deliver title s (IntervalElapsed r) = (if progressInterval s then onProgress r s else s)"

definition run_events :: "string \<Rightarrow> jsval \<Rightarrow> load_event list \<Rightarrow> load_state" where
  "run_events title simulation es = foldl (deliver title) (loadSimulation simulation) es"

fun is_tick :: "load_event \<Rightarrow> bool" where
  "is_tick (IntervalElapsed r) = True"
| "is_tick e = False"

text \<open>The settlement each of the three other events causes.\<close>

fun outcome_of :: "string \<Rightarrow> load_event \<Rightarrow> settlement" where
  "outcome_of title IframeLoad = Resolved"
| "outcome_of title IframeError = Rejected (Err ''Error'' (''Failed to load simulation: '' @ title))"
| "outcome_of title e = Rejected (Err ''Error'' ''Simulation loading timed out after 30 seconds'')"

subsection \<open>Embedding\<close>

text \<open>
  A template literal is fixed text with substitutions \<open>${e}\<close>. The substitutions are
  evaluated from left to right, each converted to a string as soon as it is evaluated,
  and the first that throws ends the evaluation. The text of a substitution goes into
  the result as it is: nothing is escaped. The fixed text is written line by line, the
  Vietnamese text in it as its UTF-8 bytes.
\<close>

datatype piece = Lit string | Sub "js_error + jsval"

fun interpolate :: "piece list \<Rightarrow> js_error + string" where
  "interpolate [] = Inr []"
| "interpolate (Lit s # ps) =
     (case interpolate ps of Inl e \<Rightarrow> Inl e | Inr r \<Rightarrow> Inr (s @ r))"
| "interpolate (Sub x # ps) =
     (case x of
        Inl e \<Rightarrow> Inl e
      | Inr v \<Rightarrow>
          (case to_string v of
             Inl e \<Rightarrow> Inl e
           | Inr s \<Rightarrow> (case interpolate ps of Inl e \<Rightarrow> Inl e | Inr r \<Rightarrow> Inr (s @ r))))"

definition text_lines :: "string list \<Rightarrow> string" where
  "text_lines ls = join [CHR 0x0A] ls"

text \<open>
  What embedding takes from the browser: for the name of a member of
  \<open>Object.prototype\<close> (\<open>constructor\<close>, \<open>toString\<close>, ...) the text that member is
  printed as, and whether \<open>wrapper.querySelector('.simulation-wrapper')\<close> finds an
  element in the document that the HTML parser makes of a markup.
\<close>

record browser =
  prototype_text :: "string \<Rightarrow> string option"
  finds_wrapper :: "string \<Rightarrow> bool"

text \<open>
  \<open>getSubjectName\<close> and \<open>getDifficultyName\<close>: \<open>names[id] || id\<close> for an object literal
  \<open>names\<close>. The key is the id converted to a string. A key of the table gives its name,
  a key that names a member of \<open>Object.prototype\<close> gives that member, which is truthy
  and of which only the text matters, and any other key gives the id itself.
\<close>

definition name_or_id ::
  "(string \<Rightarrow> string option) \<Rightarrow> (string \<times> string) list \<Rightarrow> jsval \<Rightarrow> js_error + jsval" where
  "name_or_id proto names ident =
     (case to_string ident of
        Inl e \<Rightarrow> Inl e
      | Inr k \<Rightarrow>
          (case map_of names k of
             Some name \<Rightarrow> Inr (JStr name)
           | None \<Rightarrow> (case proto k of Some member \<Rightarrow> Inr (JStr member) | None \<Rightarrow> Inr ident)))"

definition getSubjectName :: "(string \<Rightarrow> string option) \<Rightarrow> jsval \<Rightarrow> js_error + jsval" where
  "getSubjectName proto subjectId =
     name_or_id proto
       [(''physics'', ''V'' @ [CHR 0xE1, CHR 0xBA, CHR 0xAD] @ ''t L'' @ [CHR 0xC3, CHR 0xBD]),
        (''chemistry'', ''H'' @ [CHR 0xC3, CHR 0xB3] @ ''a H'' @ [CHR 0xE1, CHR 0xBB, CHR 0x8D] @ ''c''),
        (''biology'', ''Sinh H'' @ [CHR 0xE1, CHR 0xBB, CHR 0x8D] @ ''c''),
        (''mathematics'', ''To'' @ [CHR 0xC3, CHR 0xA1] @ ''n H'' @ [CHR 0xE1, CHR 0xBB, CHR 0x8D] @ ''c'')]
       subjectId"

definition getDifficultyName :: "(string \<Rightarrow> string option) \<Rightarrow> jsval \<Rightarrow> js_error + jsval" where
  "getDifficultyName proto difficultyId =
     name_or_id proto
       [(''beginner'', ''C'' @ [CHR 0xC6, CHR 0xA1] @ '' b'' @ [CHR 0xE1, CHR 0xBA, CHR 0xA3] @ ''n''),
        (''intermediate'', ''Trung b'' @ [CHR 0xC3, CHR 0xAC] @ ''nh''),
        (''advanced'', ''N'' @ [CHR 0xC3, CHR 0xA2] @ ''ng cao'')]
       difficultyId"

text \<open>
  The three templates. \<open>simulation\<close> has passed \<open>validateSimulation\<close> when they are
  evaluated, so it is an object.
\<close>

definition createHeaderHTML :: "(string \<Rightarrow> string option) \<Rightarrow> jsval \<Rightarrow> js_error + string" where
  \<open>createHeaderHTML proto simulation =
     interpolate
       [Lit (text_lines [[],
          ''        <div class="simulation-header">'',
          ''          <h2 class="simulation-title">'']),
        Sub (Inr (js_get simulation ''title'')),
        Lit (text_lines [''</h2>'',
          ''          <div class="simulation-meta">'',
          ''            <span class="simulation-badge subject">'']),
        Sub (getSubjectName proto (js_get simulation ''subject'')),
        Lit (text_lines [''</span>'',
          ''            <span class="simulation-badge grade">L'' @ [CHR 0xE1, CHR 0xBB, CHR 0x9B] @ ''p '']),
        Sub (Inr (js_get simulation ''gradeLevel'')),
        Lit (text_lines [''</span>'',
          ''            <span class="simulation-badge difficulty">'']),
        Sub (getDifficultyName proto (js_get simulation ''difficulty'')),
        Lit (text_lines [''</span>'',
          ''            <span class="simulation-duration">'' @ [CHR 0xE2, CHR 0x8F, CHR 0xB1, CHR 0xEF, CHR 0xB8, CHR 0x8F] @ '' '']),
        Sub (Inr (if truthy (js_get simulation ''duration'') then js_get simulation ''duration''
                  else JStr (''20-30 ph'' @ [CHR 0xC3, CHR 0xBA] @ ''t''))),
        Lit (text_lines [''</span>'',
          ''          </div>'',
          ''        </div>'',
          ''      ''])]\<close>

definition createControlsHTML :: "jsval \<Rightarrow> js_error + string" where
  \<open>createControlsHTML simulation =
     interpolate
       [Lit (text_lines [[],
          ''        <div class="simulation-controls">'',
          ''          <div class="control-group">'',
          ''            <button class="control-btn" onclick="window.PhETIntegration?.reloadSimulation('' @ [CHR 0x27]]),
        Sub (Inr (js_get simulation ''id'')),
        Lit (text_lines [[CHR 0x27] @ '')" '',
          ''                    title="T'' @ [CHR 0xE1, CHR 0xBA, CHR 0xA3] @ ''i l'' @ [CHR 0xE1, CHR 0xBA, CHR 0xA1] @ ''i th'' @ [CHR 0xC3, CHR 0xAD] @ '' nghi'' @ [CHR 0xE1, CHR 0xBB, CHR 0x87] @ ''m">'',
          ''              '' @ [CHR 0xF0, CHR 0x9F, CHR 0x94, CHR 0x84] @ '' T'' @ [CHR 0xE1, CHR 0xBA, CHR 0xA3] @ ''i l'' @ [CHR 0xE1, CHR 0xBA, CHR 0xA1] @ ''i'',
          ''            </button>'',
          ''            <a href="'']),
        Sub (Inr (js_get simulation ''phetUrl'')),
        Lit (text_lines [''" target="_blank" class="control-btn" '',
          ''               title="M'' @ [CHR 0xE1, CHR 0xBB, CHR 0x9F] @ '' trong tab m'' @ [CHR 0xE1, CHR 0xBB, CHR 0x9B] @ ''i">'',
          ''              '' @ [CHR 0xF0, CHR 0x9F, CHR 0x94, CHR 0x97] @ '' M'' @ [CHR 0xE1, CHR 0xBB, CHR 0x9F] @ '' ri'' @ [CHR 0xC3, CHR 0xAA] @ ''ng'',
          ''            </a>'',
          ''          </div>'',
          ''          <div class="control-group">'',
          ''            <button class="control-btn fullscreen-btn" '',
          ''                    onclick="window.PhETIntegration?.toggleFullscreen('' @ [CHR 0x27]]),
        Sub (Inr (js_get simulation ''id'')),
        Lit (text_lines [[CHR 0x27] @ '')"'',
          ''                    title="Ch'' @ [CHR 0xE1, CHR 0xBA, CHR 0xBF] @ '' '' @ [CHR 0xC4, CHR 0x91, CHR 0xE1, CHR 0xBB, CHR 0x99] @ '' to'' @ [CHR 0xC3, CHR 0xA0] @ ''n m'' @ [CHR 0xC3, CHR 0xA0] @ ''n h'' @ [CHR 0xC3, CHR 0xAC] @ ''nh">'',
          ''              '' @ [CHR 0xE2, CHR 0x9B, CHR 0xB6] @ '' To'' @ [CHR 0xC3, CHR 0xA0] @ ''n m'' @ [CHR 0xC3, CHR 0xA0] @ ''n h'' @ [CHR 0xC3, CHR 0xAC] @ ''nh'',
          ''            </button>'',
          ''          </div>'',
          ''        </div>'',
          ''      ''])]\<close>

text \<open>
  \<open>${options.showHeader !== false ? this.createHeaderHTML(simulation) : ''}\<close>, and the
  same for \<open>showControls\<close>: reading a property of \<open>options\<close> throws when \<open>options\<close>
  is \<open>null\<close>.
\<close>

definition unless_false :: "jsval \<Rightarrow> string \<Rightarrow> js_error + string \<Rightarrow> js_error + jsval" where
  "unless_false options name html =
     (case get_prop options name of
        Inl e \<Rightarrow> Inl e
      | Inr v \<Rightarrow>
          if v \<noteq> JBool False
          then (case html of Inl e \<Rightarrow> Inl e | Inr h \<Rightarrow> Inr (JStr h))
          else Inr (JStr []))"

text \<open>
  \<open>createSimulationWrapper\<close> gives the markup it assigns to \<open>wrapper.innerHTML\<close>, or
  the error it throws. Before the template, \<open>setAttribute('data-simulation-id',
  simulation.id)\<close> converts the id to a string.
\<close>

definition createSimulationWrapper ::
  "(string \<Rightarrow> string option) \<Rightarrow> jsval \<Rightarrow> jsval \<Rightarrow> js_error + string" where
  \<open>createSimulationWrapper proto simulation options =
     (case to_string (js_get simulation ''id'') of
        Inl e \<Rightarrow> Inl e
      | Inr ident \<Rightarrow>
     interpolate
       [Lit (text_lines [[],
          ''        '']),
        Sub (unless_false options ''showHeader'' (createHeaderHTML proto simulation)),
        Lit (text_lines [[],
          ''        '',
          ''        <div class="simulation-wrapper" data-simulation-url="'']),
        Sub (Inr (js_get simulation ''phetUrl'')),
        Lit (text_lines [''">'',
          ''          <!-- Iframe will be inserted here -->'',
          ''          '',
          ''          <!-- Loading state -->'',
          ''          <div class="simulation-loading">'',
          ''            <div class="simulation-spinner"></div>'',
          ''            <div class="loading-text">'' @ [CHR 0xC4, CHR 0x90] @ ''ang t'' @ [CHR 0xE1, CHR 0xBA, CHR 0xA3] @ ''i th'' @ [CHR 0xC3, CHR 0xAD] @ '' nghi'' @ [CHR 0xE1, CHR 0xBB, CHR 0x87] @ ''m...</div>'',
          ''            <div class="loading-progress">'',
          ''              <div class="loading-progress-bar"></div>'',
          ''            </div>'',
          ''            <div class="sr-simulation-status" aria-live="polite" aria-atomic="true">'',
          ''              '' @ [CHR 0xC4, CHR 0x90] @ ''ang t'' @ [CHR 0xE1, CHR 0xBA, CHR 0xA3] @ ''i th'' @ [CHR 0xC3, CHR 0xAD] @ '' nghi'' @ [CHR 0xE1, CHR 0xBB, CHR 0x87] @ ''m '']),
        Sub (Inr (js_get simulation ''title'')),
        Lit (text_lines [[],
          ''            </div>'',
          ''          </div>'',
          [],
          ''          <!-- Error state -->'',
          ''          <div class="simulation-error hidden">'',
          ''            <div class="error-icon">'' @ [CHR 0xE2, CHR 0x9A, CHR 0xA0, CHR 0xEF, CHR 0xB8, CHR 0x8F] @ ''</div>'',
          ''            <div class="error-title">Kh'' @ [CHR 0xC3, CHR 0xB4] @ ''ng th'' @ [CHR 0xE1, CHR 0xBB, CHR 0x83] @ '' t'' @ [CHR 0xE1, CHR 0xBA, CHR 0xA3] @ ''i th'' @ [CHR 0xC3, CHR 0xAD] @ '' nghi'' @ [CHR 0xE1, CHR 0xBB, CHR 0x87] @ ''m</div>'',
          ''            <div class="error-message">'',
          ''              Th'' @ [CHR 0xC3, CHR 0xAD] @ '' nghi'' @ [CHR 0xE1, CHR 0xBB, CHR 0x87] @ ''m kh'' @ [CHR 0xC3, CHR 0xB4] @ ''ng th'' @ [CHR 0xE1, CHR 0xBB, CHR 0x83] @ '' '' @ [CHR 0xC4, CHR 0x91, CHR 0xC6, CHR 0xB0, CHR 0xE1, CHR 0xBB, CHR 0xA3] @ ''c t'' @ [CHR 0xE1, CHR 0xBA, CHR 0xA3] @ ''i. Vui l'' @ [CHR 0xC3, CHR 0xB2] @ ''ng ki'' @ [CHR 0xE1, CHR 0xBB, CHR 0x83] @ ''m tra k'' @ [CHR 0xE1, CHR 0xBA, CHR 0xBF] @ ''t n'' @ [CHR 0xE1, CHR 0xBB, CHR 0x91] @ ''i m'' @ [CHR 0xE1, CHR 0xBA, CHR 0xA1] @ ''ng ho'' @ [CHR 0xE1, CHR 0xBA, CHR 0xB7] @ ''c th'' @ [CHR 0xE1, CHR 0xBB, CHR 0xAD] @ '' l'' @ [CHR 0xE1, CHR 0xBA, CHR 0xA1] @ ''i sau.'',
          ''            </div>'',
          ''            <div class="error-actions">'',
          ''              <button class="error-btn primary" onclick="window.PhETIntegration?.reloadSimulation('' @ [CHR 0x27]]),
        Sub (Inr (js_get simulation ''id'')),
        Lit (text_lines [[CHR 0x27] @ '')">'',
          ''                Th'' @ [CHR 0xE1, CHR 0xBB, CHR 0xAD] @ '' l'' @ [CHR 0xE1, CHR 0xBA, CHR 0xA1] @ ''i'',
          ''              </button>'',
          ''              <a href="'']),
        Sub (Inr (js_get simulation ''phetUrl'')),
        Lit (text_lines [''" target="_blank" class="error-btn">'',
          ''                M'' @ [CHR 0xE1, CHR 0xBB, CHR 0x9F] @ '' tr'' @ [CHR 0xE1, CHR 0xBB, CHR 0xB1] @ ''c ti'' @ [CHR 0xE1, CHR 0xBA, CHR 0xBF] @ ''p'',
          ''              </a>'',
          ''            </div>'',
          ''          </div>'',
          ''        </div>'',
          [],
          ''        '']),
        Sub (unless_false options ''showControls'' (createControlsHTML simulation)),
        Lit (text_lines [[],
          ''      ''])])\<close>

text \<open>
  \<open>createSecureIframe\<close> creates an iframe that is in no document yet and sets its
  attributes; the result is the list of them. \<open>setAttribute\<close> converts its value to a
  string and escapes nothing, the value being no markup.
\<close>

definition createSecureIframe :: "jsval \<Rightarrow> js_error + (string \<times> string) list" where
  "createSecureIframe simulation =
     (case interpolate
             [Lit (''Th'' @ [CHR 0xC3, CHR 0xAD] @ '' nghi'' @ [CHR 0xE1, CHR 0xBB, CHR 0x87] @ ''m PhET: ''),
              Sub (Inr (js_get simulation ''title''))] of
        Inl e \<Rightarrow> Inl e
      | Inr title_text \<Rightarrow>
          (case to_string (js_get simulation ''description'') of
             Inl e \<Rightarrow> Inl e
           | Inr label \<Rightarrow>
               Inr [(''sandbox'', ''allow-scripts allow-same-origin allow-popups allow-forms''),
                    (''loading'', ''lazy''),
                    (''referrerpolicy'', ''strict-origin-when-cross-origin''),
                    (''title'', title_text),
                    (''aria-label'', label),
                    (''allowfullscreen'', ''true'')]))"

text \<open>
  The integration object holds the map \<open>loadedSimulations\<close>. What a call does to the
  document is returned as a list of actions: the markup assigned to the wrapper's
  \<open>innerHTML\<close>, the wrapper appended to the container, the iframe appended to the
  element of class \<open>simulation-wrapper\<close>, a value assigned to the iframe's \<open>src\<close>, the
  error state shown (by \<open>classList\<close> and \<open>textContent\<close>). \<open>container\<close> says whether
  the container element was found; \<open>outcome\<close> is the settlement of \<open>loadSimulation\<close>,
  which assigns \<open>iframe.src = simulation.phetUrl\<close> when it starts.
\<close>

datatype dom_action =
    SetInnerHTML string
  | AppendWrapper
  | AppendIframe "(string \<times> string) list"
  | AssignSrc jsval
  | ShowError js_error

record phet_integration =
  loadedSimulations :: "(jsval \<times> jsval) list"

text \<open>
  The body of the \<open>try\<close> in \<open>embedSimulation\<close>, up to the settlement of
  \<open>loadSimulation\<close>: the error thrown, if any, and the actions made.
\<close>

definition embed_iframe ::
  "browser \<Rightarrow> jsval \<Rightarrow> string \<Rightarrow> settlement \<Rightarrow> js_error option \<times> dom_action list" where
  "embed_iframe env simulation markup outcome =
     (case createSecureIframe simulation of
        Inl e \<Rightarrow> (Some e, [])
      | Inr attributes \<Rightarrow>
          if \<not> finds_wrapper env markup
          then (Some (Err ''TypeError'' ''Cannot read properties of null (reading appendChild)''), [])
          else
            (let acts = [AppendIframe attributes, AssignSrc (js_get simulation ''phetUrl'')] in
             case outcome of
               Resolved \<Rightarrow> (None, acts)
             | Rejected error \<Rightarrow> (Some error, acts)))"

text \<open>\<open>embedSimulation(container, simulation, options = {})\<close>.\<close>

definition embedSimulation ::
  "(jsval \<Rightarrow> url option) \<Rightarrow> browser \<Rightarrow> bool \<Rightarrow> jsval \<Rightarrow> jsval \<Rightarrow> settlement \<Rightarrow> phet_integration
     \<Rightarrow> (js_error + unit) \<times> phet_integration \<times> dom_action list" where
  "embedSimulation parse_url env container simulation options outcome st =
     (if \<not> container then (Inl (Err ''Error'' ''Container element not found''), st, [])
      else
        (case validateSimulation parse_url simulation of
           Inl e \<Rightarrow> (Inl e, st, [])
         | Inr u \<Rightarrow>
             (case createSimulationWrapper (prototype_text env) simulation
                     (if options = JUndefined then JObj [] else options) of
                Inl e \<Rightarrow> (Inl e, st, [])
              | Inr markup \<Rightarrow>
                  (case embed_iframe env simulation markup outcome of
                     (None, acts) \<Rightarrow>
                       (Inr (),
                        st\<lparr>loadedSimulations :=
                             alist_set (js_get simulation ''id'') simulation (loadedSimulations st)\<rparr>,
                        SetInnerHTML markup # AppendWrapper # acts)
                   | (Some error, acts) \<Rightarrow>
                       (Inl error, st, SetInnerHTML markup # AppendWrapper # acts @ [ShowError error])))))"

definition reloadSimulation ::
  "jsval \<Rightarrow> settlement \<Rightarrow> phet_integration
     \<Rightarrow> (js_error + unit) \<times> phet_integration \<times> dom_action list" where
  "reloadSimulation simulationId outcome st =
     (case map_of (loadedSimulations st) simulationId of
        None \<Rightarrow> (Inl (Err ''Error'' ''Simulation not found''), st, [])
      | Some simulation \<Rightarrow>
          (let acts = [AssignSrc (js_get simulation ''phetUrl''),
                       AssignSrc (js_get simulation ''phetUrl'')] in
           case outcome of
             Resolved \<Rightarrow> (Inr (), st, acts)
           | Rejected error \<Rightarrow> (Inl error, st, acts @ [ShowError error])))"

definition removeSimulation :: "jsval \<Rightarrow> phet_integration \<Rightarrow> phet_integration" where
  "removeSimulation simulationId st =
     st\<lparr>loadedSimulations := alist_delete simulationId (loadedSimulations st)\<rparr>"

text \<open>Any sequence of calls on a new integration object, and everything it does to the document.\<close>

datatype phet_call =
    Embed bool jsval jsval settlement
  | Reload jsval settlement
  | Remove jsval

fun run_calls ::
  "(jsval \<Rightarrow> url option) \<Rightarrow> browser \<Rightarrow> phet_integration \<Rightarrow> phet_call list \<Rightarrow> dom_action list" where
  "run_calls parse_url env st [] = []"
| "run_calls parse_url env st (Embed container simulation options outcome # cs) =
     (case embedSimulation parse_url env container simulation options outcome st of
        (r, st', acts) \<Rightarrow> acts @ run_calls parse_url env st' cs)"
| "run_calls parse_url env st (Reload simulationId outcome # cs) =
     (case reloadSimulation simulationId outcome st of
        (r, st', acts) \<Rightarrow> acts @ run_calls parse_url env st' cs)"
| "run_calls parse_url env st (Remove simulationId # cs) =
     run_calls parse_url env (removeSimulation simulationId st) cs"

definition new_integration :: phet_integration where
  "new_integration = \<lparr>loadedSimulations = []\<rparr>"

text \<open>
  Simulation records and a URL parser for them, used below. \<open>framed\<close> has the URL of
  \<open>pendulum\<close> and a title that is the markup of an iframe. The browser is one for
  these records: no id in them names a member of \<open>Object.prototype\<close>, and the parsed
  markup has its element of class \<open>simulation-wrapper\<close>.
\<close>

definition pendulum :: jsval where
  "pendulum =
     JObj [(''id'', JStr ''pendulum-lab''), (''title'', JStr ''Pendulum Lab''),
           (''phetUrl'', JStr ''https://phet.colorado.edu/sims/html/pendulum-lab/latest/pendulum-lab_en.html'')]"

definition evil :: jsval where
  "evil =
     JObj [(''id'', JStr ''evil''), (''title'', JStr ''Evil''),
           (''phetUrl'', JStr ''https://evil.example/sims/x.html'')]"

definition iframe_markup :: string where
  \<open>iframe_markup = ''<iframe src="https://evil.example/"></iframe>''\<close>

definition framed :: jsval where
  "framed =
     JObj [(''id'', JStr ''framed''), (''title'', JStr iframe_markup),
           (''phetUrl'', JStr ''https://phet.colorado.edu/sims/html/pendulum-lab/latest/pendulum-lab_en.html'')]"

definition parse_url_table :: "jsval \<Rightarrow> url option" where
  "parse_url_table v =
     (if v = JStr ''https://phet.colorado.edu/sims/html/pendulum-lab/latest/pendulum-lab_en.html''
      then Some \<lparr>origin = ''https://phet.colorado.edu'', hostname = ''phet.colorado.edu'',
                 pathname = ''/sims/html/pendulum-lab/latest/pendulum-lab_en.html''\<rparr>
      else if v = JStr ''https://evil.example/sims/x.html''
      then Some \<lparr>origin = ''https://evil.example'', hostname = ''evil.example'',
                 pathname = ''/sims/x.html''\<rparr>
      else None)"

definition test_browser :: browser where
  "test_browser = \<lparr>prototype_text = (\<lambda>k. None), finds_wrapper = (\<lambda>markup. True)\<rparr>"

text \<open>The heading of the header with a text put into it as it is.\<close>

definition title_element :: "string \<Rightarrow> string" where
  \<open>title_element s = ''<h2 class="simulation-title">'' @ s @ ''</h2>''\<close>

text \<open>The promise is pending: nothing has been cleaned up and nothing settled.\<close>

definition pending :: "load_state \<Rightarrow> bool" where
  "pending s \<longleftrightarrow> loadListener s \<and> errorListener s \<and> loadTimeout s \<and> progressInterval s \<and> settlements s = []"

text \<open>After \<open>cleanup\<close>: no listener is attached and no timer is pending.\<close>

definition finished :: "load_state \<Rightarrow> bool" where
  "finished s \<longleftrightarrow> \<not> loadListener s \<and> \<not> errorListener s \<and> \<not> loadTimeout s \<and> \<not> progressInterval s"

text \<open>The simulations that \<open>validateSimulation\<close> accepts, and the URLs of the PhET host.\<close>

definition valid_simulation :: "(jsval \<Rightarrow> url option) \<Rightarrow> jsval \<Rightarrow> bool" where
  "valid_simulation parse_url simulation \<longleftrightarrow>
     truthy simulation \<and> typeof simulation = ''object''
     \<and> truthy (js_get simulation ''id'') \<and> truthy (js_get simulation ''title'')
     \<and> truthy (js_get simulation ''phetUrl'')
     \<and> (\<exists>u. parse_url (js_get simulation ''phetUrl'') = Some u
            \<and> hostname u = ''phet.colorado.edu'' \<and> str_includes (pathname u) ''/sims/'')"

definition points_at_phet :: "(jsval \<Rightarrow> url option) \<Rightarrow> jsval \<Rightarrow> bool" where
  "points_at_phet parse_url v \<longleftrightarrow> (\<exists>u. parse_url v = Some u \<and> hostname u = ''phet.colorado.edu'')"

text \<open>Every simulation held in \<open>loadedSimulations\<close> has passed the validation.\<close>

definition all_valid :: "(jsval \<Rightarrow> url option) \<Rightarrow> phet_integration \<Rightarrow> bool" where
  "all_valid parse_url st \<longleftrightarrow> (\<forall>p\<in>set (loadedSimulations st). valid_simulation parse_url (snd p))"

section \<open>Data manager (js/data-manager.js)\<close>

record data_manager =
  baseUrl :: string
  retryAttempts :: nat
  retryDelay :: nat

text \<open>The constructor.\<close>

definition new_DataManager :: data_manager where
  "new_DataManager = \<lparr>baseUrl = [], retryAttempts = 3, retryDelay = 1000\<rparr>"

text \<open>
  What \<open>fetchWithRetry\<close> reads of a response: \<open>ok\<close>, \<open>status\<close>, \<open>statusText\<close> and
  the result of \<open>response.json()\<close>, which is the parsed body or the error it rejects with.
\<close>

record fetch_response =
  resp_ok :: bool
  resp_status :: nat
  resp_statusText :: string
  resp_json :: "js_error + jsval"

text \<open>
  The inner \<open>forEach\<close> over the required fields of one simulation, inside the outer
  \<open>forEach\<close> over the simulations with their indices. Reading a field of \<open>null\<close> throws
  a \<open>TypeError\<close>.
\<close>

fun check_simulations :: "nat \<Rightarrow> jsval list \<Rightarrow> js_error + unit" where
  "check_simulations index [] = Inr ()"
| "check_simulations index (sim # sims) =
     (if nullish sim then Inl (Err ''TypeError'' ''Cannot read properties of null'')
      else
        (case find (\<lambda>field. \<not> truthy (js_get sim field))
                [''id'', ''title'', ''subject'', ''gradeLevel'', ''phetUrl''] of
           Some field \<Rightarrow>
             Inl (Err ''Error'' (''Simulation '' @ show_nat index @ '': Missing required field ''
                    @ [CHR 0x27] @ field @ [CHR 0x27]))
         | None \<Rightarrow> check_simulations (index + 1) sims))"

definition validateData :: "jsval \<Rightarrow> string \<Rightarrow> js_error + unit" where
  "validateData data type =
     (if \<not> truthy data \<or> typeof data \<noteq> ''object''
      then Inl (Err ''Error'' (''Invalid data format for '' @ type))
      else if type = ''subjects'' then
        (if \<not> truthy (js_get data ''subjects'') \<or> typeof (js_get data ''subjects'') \<noteq> ''object''
         then Inl (Err ''Error'' ''Subjects data missing or invalid'')
         else Inr ())
      else if type = ''simulations'' then
        (case js_get data ''simulations'' of
           JArr sims \<Rightarrow> check_simulations 0 sims
         | other \<Rightarrow> Inl (Err ''Error'' ''Simulations data must be an array''))
      else Inr ())"

text \<open>
  The body of the \<open>try\<close> in the loop, for one attempt. \<open>network attempt\<close> is what the
  fetch of that attempt gives: a response, or the error the fetch rejects with.
\<close>

definition attempt_once ::
  "(nat \<Rightarrow> js_error + fetch_response) \<Rightarrow> string \<Rightarrow> nat \<Rightarrow> js_error + jsval" where
  "attempt_once network cacheKey attempt =
     (case network attempt of
        Inl error \<Rightarrow> Inl error
      | Inr response \<Rightarrow>
          if \<not> resp_ok response
          then Inl (Err ''Error'' (''HTTP '' @ show_nat (resp_status response) @ '': ''
                      @ resp_statusText response))
          else
            (case resp_json response of
               Inl error \<Rightarrow> Inl error
             | Inr data \<Rightarrow>
                 (case validateData data cacheKey of
                    Inl error \<Rightarrow> Inl error
                  | Inr u \<Rightarrow> Inr data)))"

text \<open>
  What the function does to the outside, in order: a fetch of a URL (with the
  \<open>skipCache\<close> option), a delay in milliseconds, and the call of
  \<open>window.ErrorHandler.handleNetworkError\<close> when that handler is installed.
\<close>

datatype fetch_effect =
    Fetch string bool
  | Delay nat
  | HandleNetworkError "js_error option" string

text \<open>
  The \<open>for\<close> loop from \<open>attempt\<close> on. It ends with the data returned from inside the
  loop (\<open>Inr\<close>), or falls through with \<open>lastError\<close> (\<open>Inl\<close>).
\<close>

function retry_loop ::
  "data_manager \<Rightarrow> (nat \<Rightarrow> js_error + fetch_response) \<Rightarrow> string \<Rightarrow> string \<Rightarrow> nat
     \<Rightarrow> js_error option \<Rightarrow> (js_error option + jsval) \<times> fetch_effect list" where
  "retry_loop dm network url cacheKey attempt lastError =
     (if attempt \<le> retryAttempts dm then
        (case attempt_once network cacheKey attempt of
           Inr data \<Rightarrow> (Inr data, [Fetch (baseUrl dm @ url) (attempt > 1)])
         | Inl error \<Rightarrow>
             (case retry_loop dm network url cacheKey (attempt + 1) (Some error) of
                (r, effects) \<Rightarrow>
                  (r, Fetch (baseUrl dm @ url) (attempt > 1)
                      # (if attempt < retryAttempts dm then [Delay (retryDelay dm * attempt)] else [])
                      @ effects)))
      else (Inl lastError, []))"
  by pat_completeness auto
termination
  by (relation "measure (\<lambda>(dm, network, url, cacheKey, attempt, lastError). retryAttempts dm + 1 - attempt)")
    auto

declare retry_loop.simps [simp del]

text \<open>\<open>errorHandler\<close> says whether \<open>window.ErrorHandler\<close> is installed.\<close>

definition fetchWithRetry ::
  "data_manager \<Rightarrow> bool \<Rightarrow> (nat \<Rightarrow> js_error + fetch_response) \<Rightarrow> string \<Rightarrow> string
     \<Rightarrow> (js_error + jsval) \<times> fetch_effect list" where
  "fetchWithRetry dm errorHandler network url cacheKey =
     (case retry_loop dm network url cacheKey 1 None of
        (Inr data, effects) \<Rightarrow> (Inr data, effects)
      | (Inl lastError, effects) \<Rightarrow>
          (let effects = effects
                 @ (if errorHandler then [HandleNetworkError lastError (baseUrl dm @ url)] else []) in
           case lastError of
             None \<Rightarrow> (Inl (Err ''TypeError'' ''Cannot read properties of undefined (reading message)''), effects)
           | Some e \<Rightarrow>
               (Inl (Err ''Error'' (''Failed to load '' @ url @ '' after ''
                       @ show_nat (retryAttempts dm) @ '' attempts: '' @ err_message e)),
                effects)))"

text \<open>A server that answers 500 twice and then serves the subjects file.\<close>

definition subjects_json :: jsval where
  "subjects_json = JObj [(''subjects'', JObj [(''physics'', JObj [(''name'', JStr ''Physics'')])])]"

definition flaky :: "nat \<Rightarrow> js_error + fetch_response" where
  "flaky attempt =
     (if attempt < 3
      then Inr \<lparr>resp_ok = False, resp_status = 500, resp_statusText = ''Internal Server Error'',
                resp_json = Inl (Err ''SyntaxError'' ''Unexpected end of JSON input'')\<rparr>
      else Inr \<lparr>resp_ok = True, resp_status = 200, resp_statusText = ''OK'',
                resp_json = Inr subjects_json\<rparr>)"

definition offline :: "nat \<Rightarrow> js_error + fetch_response" where
  "offline attempt = Inl (Err ''TypeError'' ''Failed to fetch'')"

section \<open>Content filter (js/content-filter.js)\<close>

text \<open>
  \<open>currentFilters\<close>. The subject, grade level and difficulty are a string or \<open>null\<close>;
  the tags are an array of strings; the keyword is a string. A simulation is the
  JavaScript value loaded from the data file or from the custom simulations.
\<close>

record filter_state =
  subject :: "string option"
  gradeLevel :: "string option"
  difficulty :: "string option"
  tags :: "string list"
  keyword :: string

text \<open>\<open>Array.prototype.filter\<close> with a predicate that can throw: the first throw ends it.\<close>

fun filter_e :: "('a \<Rightarrow> js_error + bool) \<Rightarrow> 'a list \<Rightarrow> js_error + 'a list" where
  "filter_e p [] = Inr []"
| "filter_e p (x # xs) =
     (case p x of
        Inl e \<Rightarrow> Inl e
      | Inr b \<Rightarrow>
          (case filter_e p xs of
             Inl e \<Rightarrow> Inl e
           | Inr ys \<Rightarrow> Inr (if b then x # ys else ys)))"

text \<open>\<open>sim => sim[name] === value\<close>, for a string \<open>value\<close>.\<close>

definition field_equals :: "string \<Rightarrow> string \<Rightarrow> jsval \<Rightarrow> js_error + bool" where
  "field_equals name v sim =
     (case get_prop sim name of Inl e \<Rightarrow> Inl e | Inr x \<Rightarrow> Inr (x = JStr v))"

text \<open>
  \<open>sim => this.currentFilters.tags.some(tag => sim.tags.includes(tag))\<close>. \<open>includes\<close>
  is a method of arrays (membership) and of strings (substring) only.
\<close>

definition tags_match :: "string list \<Rightarrow> jsval \<Rightarrow> js_error + bool" where
  "tags_match ts sim =
     (if ts = [] then Inr False
      else
        (case get_prop sim ''tags'' of
           Inl e \<Rightarrow> Inl e
         | Inr (JArr xs) \<Rightarrow> Inr (list_ex (\<lambda>tag. JStr tag \<in> set xs) ts)
         | Inr (JStr s) \<Rightarrow> Inr (list_ex (\<lambda>tag. str_includes s tag) ts)
         | Inr other \<Rightarrow> Inl (Err ''TypeError'' ''sim.tags.includes is not a function'')))"

text \<open>The spread \<open>...v\<close> inside an array literal: arrays and strings are iterable.\<close>

fun spread :: "jsval \<Rightarrow> js_error + jsval list" where
  "spread (JArr xs) = Inr xs"
| "spread (JStr s) = Inr (map (\<lambda>c. JStr [c]) s)"
| "spread v = Inl (Err ''TypeError'' ''value is not iterable'')"

text \<open>The \<open>forEach\<close> over \<open>simulation.vocabulary\<close>, pushing the term and the definition.\<close>

fun vocabulary_fields :: "jsval list \<Rightarrow> js_error + jsval list" where
  "vocabulary_fields [] = Inr []"
| "vocabulary_fields (vocab # vs) =
     (if nullish vocab then Inl (Err ''TypeError'' ''Cannot read properties of null'')
      else
        (case vocabulary_fields vs of
           Inl e \<Rightarrow> Inl e
         | Inr fs \<Rightarrow> Inr (js_get vocab ''term'' # js_get vocab ''definition'' # fs)))"

definition searchFields :: "jsval \<Rightarrow> js_error + jsval list" where
  "searchFields simulation =
     (if nullish simulation then Inl (Err ''TypeError'' ''Cannot read properties of null'')
      else
        (case spread (js_get simulation ''topics'') of
           Inl e \<Rightarrow> Inl e
         | Inr topics \<Rightarrow>
             (case spread (js_get simulation ''learningObjectives'') of
                Inl e \<Rightarrow> Inl e
              | Inr objectives \<Rightarrow>
                  (let flds =
                         [js_get simulation ''title'', js_get simulation ''description'']
                         @ topics @ objectives
                         @ [if truthy (js_get simulation ''instructions'')
                            then js_get simulation ''instructions'' else JStr []] in
                   if truthy (js_get simulation ''vocabulary'') then
                     (case js_get simulation ''vocabulary'' of
                        JArr vs \<Rightarrow>
                          (case vocabulary_fields vs of
                             Inl e \<Rightarrow> Inl e
                           | Inr fs \<Rightarrow> Inr (flds @ fs))
                      | other \<Rightarrow>
                          Inl (Err ''TypeError'' ''simulation.vocabulary.forEach is not a function''))
                   else Inr flds))))"

text \<open>
  \<open>searchFields.some(field => field.toLowerCase().includes(keyword))\<close>. \<open>some\<close> stops
  at the first match. \<open>lower\<close> is \<open>String.prototype.toLowerCase\<close>, which only strings
  have.
\<close>

fun some_field :: "(string \<Rightarrow> string) \<Rightarrow> string \<Rightarrow> jsval list \<Rightarrow> js_error + bool" where
  "some_field lower kw [] = Inr False"
| "some_field lower kw (JStr s # fs) =
     (if str_includes (lower s) kw then Inr True else some_field lower kw fs)"
| "some_field lower kw (v # fs) = Inl (Err ''TypeError'' ''field.toLowerCase is not a function'')"

definition matchesKeyword :: "(string \<Rightarrow> string) \<Rightarrow> jsval \<Rightarrow> string \<Rightarrow> js_error + bool" where
  "matchesKeyword lower simulation kw =
     (case searchFields simulation of
        Inl e \<Rightarrow> Inl e
      | Inr flds \<Rightarrow> some_field lower kw flds)"

text \<open>
  \<open>applyFilters\<close>: the five filters one after the other, each on the results of the one
  before. The value returned is also stored in \<open>filteredResults\<close>.
\<close>

definition applyFilters ::
  "(string \<Rightarrow> string) \<Rightarrow> filter_state \<Rightarrow> jsval list \<Rightarrow> js_error + jsval list" where
  "applyFilters lower currentFilters allSimulations =
     (case (if item_truthy (subject currentFilters)
            then filter_e (field_equals ''subject'' (the (subject currentFilters))) allSimulations
            else Inr allSimulations) of
        Inl e \<Rightarrow> Inl e
      | Inr results \<Rightarrow>
     (case (if item_truthy (gradeLevel currentFilters)
            then filter_e (field_equals ''gradeLevel'' (the (gradeLevel currentFilters))) results
            else Inr results) of
        Inl e \<Rightarrow> Inl e
      | Inr results \<Rightarrow>
     (case (if item_truthy (difficulty currentFilters)
            then filter_e (field_equals ''difficulty'' (the (difficulty currentFilters))) results
            else Inr results) of
        Inl e \<Rightarrow> Inl e
      | Inr results \<Rightarrow>
     (case (if length (tags currentFilters) > 0
            then filter_e (tags_match (tags currentFilters)) results
            else Inr results) of
        Inl e \<Rightarrow> Inl e
      | Inr results \<Rightarrow>
          (if keyword currentFilters \<noteq> []
           then filter_e (\<lambda>sim. matchesKeyword lower sim (lower (keyword currentFilters))) results
           else Inr results)))))"

text \<open>
  What the predicates need in order to read a simulation without a \<open>TypeError\<close>. Each
  of them reads a property of the simulation, which must not be \<open>null\<close> or
  \<open>undefined\<close>. The tag predicate calls \<open>sim.tags.includes\<close>, which an array has. The
  keyword predicate spreads \<open>topics\<close> and \<open>learningObjectives\<close> and calls
  \<open>toLowerCase\<close> on every search field: a simulation is \<open>searchable\<close> when its
  \<open>title\<close> and \<open>description\<close> are strings, its \<open>topics\<close> and \<open>learningObjectives\<close>
  are arrays of strings, its \<open>instructions\<close> is a string or falsy, and its
  \<open>vocabulary\<close> is falsy or an array of objects with a string \<open>term\<close> and a string
  \<open>definition\<close>. For such a simulation \<open>search_strings\<close> lists the strings that the
  keyword is looked for in.
\<close>

fun is_str :: "jsval \<Rightarrow> bool" where
  "is_str (JStr s) = True"
| "is_str v = False"

fun str_of :: "jsval \<Rightarrow> string" where
  "str_of (JStr s) = s"
| "str_of v = []"

fun elements :: "jsval \<Rightarrow> jsval list" where
  "elements (JArr xs) = xs"
| "elements v = []"

fun is_arr :: "jsval \<Rightarrow> bool" where
  "is_arr (JArr xs) = True"
| "is_arr v = False"

definition is_str_array :: "jsval \<Rightarrow> bool" where
  "is_str_array v \<longleftrightarrow> is_arr v \<and> list_all is_str (elements v)"

definition is_vocab :: "jsval \<Rightarrow> bool" where
  "is_vocab v \<longleftrightarrow> \<not> nullish v \<and> is_str (js_get v ''term'') \<and> is_str (js_get v ''definition'')"

definition searchable :: "jsval \<Rightarrow> bool" where
  "searchable sim \<longleftrightarrow>
     is_str (js_get sim ''title'') \<and> is_str (js_get sim ''description'')
     \<and> is_str_array (js_get sim ''topics'') \<and> is_str_array (js_get sim ''learningObjectives'')
     \<and> (truthy (js_get sim ''instructions'') \<longrightarrow> is_str (js_get sim ''instructions''))
     \<and> (truthy (js_get sim ''vocabulary'') \<longrightarrow>
          is_arr (js_get sim ''vocabulary'') \<and> list_all is_vocab (elements (js_get sim ''vocabulary'')))"

definition search_strings :: "jsval \<Rightarrow> string list" where
  "search_strings sim =
     [str_of (js_get sim ''title''), str_of (js_get sim ''description'')]
     @ map str_of (elements (js_get sim ''topics''))
     @ map str_of (elements (js_get sim ''learningObjectives''))
     @ [str_of (js_get sim ''instructions'')]
     @ concat (map (\<lambda>v. [str_of (js_get v ''term''), str_of (js_get v ''definition'')])
                (elements (js_get sim ''vocabulary'')))"

text \<open>
  The predicate of a filter state: every active filter holds of the simulation. A
  subject, grade level or difficulty filter is active when it is a non-empty string, the
  tag filter when there is a tag, the keyword filter when the keyword is non-empty.
\<close>

definition passes :: "(string \<Rightarrow> string) \<Rightarrow> filter_state \<Rightarrow> jsval \<Rightarrow> bool" where
  "passes lower f sim \<longleftrightarrow>
     (item_truthy (subject f) \<longrightarrow> js_get sim ''subject'' = JStr (the (subject f)))
     \<and> (item_truthy (gradeLevel f) \<longrightarrow> js_get sim ''gradeLevel'' = JStr (the (gradeLevel f)))
     \<and> (item_truthy (difficulty f) \<longrightarrow> js_get sim ''difficulty'' = JStr (the (difficulty f)))
     \<and> (tags f \<noteq> [] \<longrightarrow> (\<exists>tag\<in>set (tags f). JStr tag \<in> set (elements (js_get sim ''tags''))))
     \<and> (keyword f \<noteq> [] \<longrightarrow>
          (\<exists>s\<in>set (search_strings sim). str_includes (lower s) (lower (keyword f))))"

text \<open>
  The filters run one after the other, each on the results of the one before: the tag
  predicate is evaluated on the simulations that pass the subject, grade level and
  difficulty filters, the keyword predicate on those that pass the tag filter as well.
\<close>

definition passes_fields :: "filter_state \<Rightarrow> jsval \<Rightarrow> bool" where
  "passes_fields f sim \<longleftrightarrow>
     (item_truthy (subject f) \<longrightarrow> js_get sim ''subject'' = JStr (the (subject f)))
     \<and> (item_truthy (gradeLevel f) \<longrightarrow> js_get sim ''gradeLevel'' = JStr (the (gradeLevel f)))
     \<and> (item_truthy (difficulty f) \<longrightarrow> js_get sim ''difficulty'' = JStr (the (difficulty f)))"

definition passes_tags :: "filter_state \<Rightarrow> jsval \<Rightarrow> bool" where
  "passes_tags f sim \<longleftrightarrow>
     (tags f \<noteq> [] \<longrightarrow> (\<exists>tag\<in>set (tags f). JStr tag \<in> set (elements (js_get sim ''tags''))))"

text \<open>
  Three simulations and filter states used below; \<open>ascii_lower\<close> stands for
  \<open>toLowerCase\<close>. \<open>untagged\<close> has the fields of the example record of the README,
  which has no \<open>tags\<close>.
\<close>

definition ascii_lower :: "string \<Rightarrow> string" where
  "ascii_lower s =
     map (\<lambda>c. case map_of (zip ''ABCDEFGHIJKLMNOPQRSTUVWXYZ'' ''abcdefghijklmnopqrstuvwxyz'') c of
                Some d \<Rightarrow> d
              | None \<Rightarrow> c) s"

definition forces :: jsval where
  "forces =
     JObj [(''id'', JStr ''forces''), (''title'', JStr ''Forces''), (''subject'', JStr ''physics''),
           (''gradeLevel'', JStr ''6-8''), (''difficulty'', JStr ''beginner''),
           (''description'', JStr ''Push and pull''), (''tags'', JArr [JStr ''motion'']),
           (''topics'', JArr [JStr ''force'']), (''learningObjectives'', JArr [JStr ''Newton''])]"

definition acids :: jsval where
  "acids =
     JObj [(''id'', JStr ''acids''), (''title'', JStr ''Acids''), (''subject'', JStr ''chemistry''),
           (''gradeLevel'', JStr ''9-12''), (''difficulty'', JStr ''advanced''),
           (''description'', JStr ''pH scale''), (''tags'', JArr [JStr ''ph'']),
           (''topics'', JArr [JStr ''acid'']), (''learningObjectives'', JArr [JStr ''pH''])]"

definition untagged :: jsval where
  "untagged =
     JObj [(''id'', JStr ''new-simulation''), (''title'', JStr ''Pendulum''),
           (''description'', JStr ''Swing''), (''subject'', JStr ''physics''),
           (''gradeLevel'', JStr ''10''), (''difficulty'', JStr ''intermediate''),
           (''phetUrl'', JStr ''https://phet.colorado.edu/sims/html/pendulum-lab/latest/pendulum-lab_en.html''),
           (''topics'', JArr [JStr ''topic1'', JStr ''topic2'']),
           (''learningObjectives'', JArr [JStr ''objective1'', JStr ''objective2''])]"

definition no_filters :: filter_state where
  "no_filters = \<lparr>subject = None, gradeLevel = None, difficulty = None, tags = [], keyword = []\<rparr>"

text \<open>Filter states used below.\<close>

definition empty_subject :: filter_state where
  "empty_subject = no_filters\<lparr>subject := Some []\<rparr>"

definition physics_force :: filter_state where
  "physics_force = no_filters\<lparr>subject := Some ''physics'', keyword := ''FORCE''\<rparr>"

definition physics_only :: filter_state where
  "physics_only = no_filters\<lparr>subject := Some ''physics''\<rparr>"

definition chemistry_ph :: filter_state where
  "chemistry_ph = no_filters\<lparr>subject := Some ''chemistry'', tags := [''ph'']\<rparr>"

section \<open>Simulation manager (js/simulation-manager.js)\<close>

text \<open>
  An object literal: its properties are defined from left to right, a later definition
  of a key replacing the value of an earlier one (which keeps its place). A spread
  \<open>...obj\<close> contributes the properties of \<open>obj\<close> in their order.
\<close>

definition object_literal :: "(string \<times> jsval) list \<Rightarrow> jsval" where
  "object_literal ps = JObj (foldl (\<lambda>acc p. alist_set (fst p) (snd p) acc) [] ps)"

fun own_properties :: "jsval \<Rightarrow> (string \<times> jsval) list" where
  "own_properties (JObj ps) = ps"
| "own_properties v = []"

text \<open>
  What \<open>JSON.parse(JSON.stringify(v))\<close> gives back, that is, the value that the stored
  text denotes: a property whose value is \<open>undefined\<close> is left out, and \<open>undefined\<close>
  in an array becomes \<open>null\<close>.
\<close>

fun to_json :: "jsval \<Rightarrow> jsval" where
  "to_json (JArr xs) = JArr (map (\<lambda>x. if x = JUndefined then JNull else to_json x) xs)"
| "to_json (JObj ps) =
     JObj (map (\<lambda>p. (fst p, to_json (snd p))) (filter (\<lambda>p. snd p \<noteq> JUndefined) ps))"
| "to_json v = v"

record simulation_manager =
  customSimulations :: "jsval list"
  nextId :: nat
  stored_data :: "jsval option"

datatype validation = Validation (isValid: bool) (message: string)

text \<open>
  \<open>validateSimulationData\<close>. It throws only when \<open>data\<close> is \<open>null\<close> or
  \<open>undefined\<close>. \<open>parse_url\<close> is \<open>new URL\<close>, as above.
\<close>

definition validateSimulationData ::
  "(jsval \<Rightarrow> url option) \<Rightarrow> jsval \<Rightarrow> js_error + validation" where
  "validateSimulationData parse_url data =
     (if nullish data then Inl (Err ''TypeError'' ''Cannot read properties of null or undefined'')
      else
        (let missing = filter (\<lambda>field. \<not> truthy (js_get data field))
                         [''title'', ''description'', ''subject'', ''gradeLevel'', ''phetUrl''] in
         if length missing > 0
         then Inr (Validation False (''Missing required fields: '' @ join '', '' missing))
         else if parse_url (js_get data ''phetUrl'') = None
         then Inr (Validation False ''Invalid PhET URL format'')
         else if js_get data ''subject''
                   \<notin> set [JStr ''physics'', JStr ''chemistry'', JStr ''biology'', JStr ''mathematics'']
         then Inr (Validation False
                (''Invalid subject. Must be one of: ''
                   @ join '', '' [''physics'', ''chemistry'', ''biology'', ''mathematics'']))
         else if \<not> is_arr (js_get data ''gradeLevel'') \<or> elements (js_get data ''gradeLevel'') = []
         then Inr (Validation False ''Grade level must be a non-empty array'')
         else Inr (Validation True ''Validation passed'')))"

text \<open>
  \<open>saveToStorage\<close>. \<open>room\<close> says whether \<open>localStorage.setItem\<close> succeeds; when it
  throws, the error is thrown on. \<open>now\<close> is \<open>new Date().toISOString()\<close>.
\<close>

definition saveToStorage ::
  "bool \<Rightarrow> string \<Rightarrow> simulation_manager \<Rightarrow> js_error + simulation_manager" where
  "saveToStorage room now m =
     (let data = object_literal
                   [(''simulations'', JArr (customSimulations m)),
                    (''nextId'', JNum (int (nextId m))),
                    (''lastSaved'', JStr now)] in
      if room then Inr (m\<lparr>stored_data := Some (to_json data)\<rparr>)
      else Inl (Err ''QuotaExceededError'' ''The quota has been exceeded''))"

text \<open>
  \<open>addSimulation\<close>. The result is the error thrown or the simulation returned, together
  with the manager afterwards: \<open>nextId\<close> and \<open>customSimulations\<close> keep their changes
  when \<open>saveToStorage\<close> throws.
\<close>

definition addSimulation ::
  "(jsval \<Rightarrow> url option) \<Rightarrow> bool \<Rightarrow> string \<Rightarrow> jsval \<Rightarrow> simulation_manager
     \<Rightarrow> (js_error + jsval) \<times> simulation_manager" where
  "addSimulation parse_url room now simulationData m =
     (case validateSimulationData parse_url simulationData of
        Inl e \<Rightarrow> (Inl e, m)
      | Inr validation \<Rightarrow>
          if \<not> isValid validation then (Inl (Err ''Error'' (message validation)), m)
          else
            (let simulation = object_literal
                   ([(''id'', JStr (''custom-'' @ show_nat (nextId m)))]
                    @ own_properties simulationData
                    @ [(''isCustom'', JBool True),
                       (''addedDate'', JStr now),
                       (''lastModified'', JStr now),
                       (''accessCount'', JNum 0)]);
                 m = m\<lparr>nextId := nextId m + 1\<rparr>;
                 m = m\<lparr>customSimulations := customSimulations m @ [simulation]\<rparr>
             in case saveToStorage room now m of
                  Inl e \<Rightarrow> (Inl e, m)
                | Inr m \<Rightarrow> (Inr simulation, m)))"

text \<open>
  The call that \<open>importSimulations\<close> makes for one imported simulation:
  \<open>this.addSimulation({...simData, id: undefined})\<close>, commented
  \<open>// Let system assign new ID\<close>.
\<close>

definition import_one ::
  "(jsval \<Rightarrow> url option) \<Rightarrow> bool \<Rightarrow> string \<Rightarrow> jsval \<Rightarrow> simulation_manager
     \<Rightarrow> (js_error + jsval) \<times> simulation_manager" where
  "import_one parse_url room now simData m =
     addSimulation parse_url room now
       (object_literal (own_properties simData @ [(''id'', JUndefined)])) m"

text \<open>A manager with no simulations, and simulation data with and without an \<open>id\<close>.\<close>

definition new_manager :: simulation_manager where
  "new_manager = \<lparr>customSimulations = [], nextId = 1, stored_data = None\<rparr>"

definition pendulum_data :: jsval where
  "pendulum_data =
     JObj [(''title'', JStr ''Pendulum Lab''), (''description'', JStr ''Swing it''),
           (''subject'', JStr ''physics''), (''gradeLevel'', JArr [JStr ''6-8'']),
           (''phetUrl'', JStr ''https://phet.colorado.edu/sims/html/pendulum-lab/latest/pendulum-lab_en.html'')]"

definition pendulum_with_id :: jsval where
  "pendulum_with_id = JObj (own_properties pendulum_data @ [(''id'', JStr ''pendulum-lab'')])"

definition persisted_simulations :: "simulation_manager \<Rightarrow> jsval list" where
  "persisted_simulations m =
     (case stored_data m of None \<Rightarrow> [] | Some data \<Rightarrow> elements (js_get data ''simulations''))"

text \<open>The four properties that \<open>addSimulation\<close> writes after the spread.\<close>

definition bookkeeping :: "string \<Rightarrow> (string \<times> jsval) list" where
  "bookkeeping now =
     [(''isCustom'', JBool True), (''addedDate'', JStr now), (''lastModified'', JStr now),
      (''accessCount'', JNum 0)]"

section \<open>Completion tracker (completion-tracker.js)\<close>

text \<open>
  What the tracker takes from the platform during one call: the clock \<open>Date.now()\<close>,
  the random part of a new session id, \<open>new Date(t).toISOString()\<close>, \<open>JSON.parse\<close>,
  \<open>JSON.stringify\<close>, whether \<open>localStorage.setItem\<close> accepts a text (\<open>None\<close>) or
  throws, the conversion of strings and objects to numbers, and \<open>v + 1\<close> for a truthy
  \<open>v\<close> that is not a number.
\<close>

record platform =
  clock :: int
  random_part :: string
  iso_string :: "int \<Rightarrow> string"
  json_parse :: "string \<Rightarrow> js_error + jsval"
  json_stringify :: "jsval \<Rightarrow> string"
  set_item :: "string \<Rightarrow> js_error option"
  to_num :: "jsval \<Rightarrow> int option"
  plus_one :: "jsval \<Rightarrow> jsval"

text \<open>
  The tracker: \<open>completionData\<close>, the session id once it has been made
  (\<open>this.sessionId\<close>), and the item stored under \<open>edulab_completion_data\<close>.
\<close>

record tracker =
  completionData :: jsval
  sessionId :: "string option"
  storage_item :: "string option"

definition maxStorageSize :: nat where
  "maxStorageSize = 4 * 1024 * 1024"

text \<open>
  The enumerable properties of a value, as \<open>Object.keys\<close> and \<open>Object.entries\<close> list
  them: an array has its indices as keys. An array that the tracker writes a property
  into or deletes one from is continued as the object with the same properties;
  \<open>Object.keys\<close>, reads, writes and \<open>delete\<close> do not tell the two apart.
\<close>

fun entries :: "jsval \<Rightarrow> (string \<times> jsval) list" where
  "entries (JObj ps) = ps"
| "entries (JArr xs) = zip (map show_nat [0..<length xs]) xs"
| "entries v = []"

text \<open>\<open>Object.keys(v)\<close> and \<open>Object.entries(v)\<close> throw for \<open>null\<close> and \<open>undefined\<close>.\<close>

definition object_entries :: "jsval \<Rightarrow> js_error + (string \<times> jsval) list" where
  "object_entries v =
     (if nullish v then Inl (Err ''TypeError'' ''Cannot convert undefined or null to object'')
      else Inr (entries v))"

text \<open>\<open>data.k = v\<close> for an object \<open>data\<close>.\<close>

fun assign :: "jsval \<Rightarrow> string \<Rightarrow> jsval \<Rightarrow> jsval" where
  "assign (JObj ps) k v = JObj (alist_set k v ps)"
| "assign d k v = d"

text \<open>
  \<open>target[k]\<close>, \<open>target[k] = v\<close> and \<open>delete target[k]\<close> for any target, the key
  being a simulation id. The file is in strict mode: writing a property of a primitive
  value throws, as does any access to a property of \<open>null\<close> or \<open>undefined\<close>.
\<close>

definition read_in :: "jsval \<Rightarrow> string \<Rightarrow> js_error + jsval" where
  "read_in target k =
     (if nullish target then Inl (Err ''TypeError'' ''Cannot read properties of null or undefined'')
      else Inr (case map_of (entries target) k of Some v \<Rightarrow> v | None \<Rightarrow> JUndefined))"

fun set_in :: "jsval \<Rightarrow> string \<Rightarrow> jsval \<Rightarrow> js_error + jsval" where
  "set_in (JObj ps) k v = Inr (JObj (alist_set k v ps))"
| "set_in (JArr xs) k v = Inr (JObj (alist_set k v (entries (JArr xs))))"
| "set_in target k v = Inl (Err ''TypeError'' ''Cannot set properties'')"

fun delete_in :: "jsval \<Rightarrow> string \<Rightarrow> js_error + jsval" where
  "delete_in (JObj ps) k = Inr (JObj (alist_delete k ps))"
| "delete_in (JArr xs) k = Inr (JObj (alist_delete k (entries (JArr xs))))"
| "delete_in JNull k = Inl (Err ''TypeError'' ''Cannot convert undefined or null to object'')"
| "delete_in JUndefined k = Inl (Err ''TypeError'' ''Cannot convert undefined or null to object'')"
| "delete_in target k = Inr target"

subsection \<open>Loading\<close>

definition getSessionId :: "platform \<Rightarrow> tracker \<Rightarrow> string \<times> tracker" where
  "getSessionId env t =
     (if \<not> item_truthy (sessionId t)
      then (let s = ''session_'' @ show_int (clock env) @ ''_'' @ random_part env
            in (s, t\<lparr>sessionId := Some s\<rparr>))
      else (the (sessionId t), t))"

definition createEmptyData :: "platform \<Rightarrow> tracker \<Rightarrow> jsval \<times> tracker" where
  "createEmptyData env t =
     (case getSessionId env t of (sid, t) \<Rightarrow>
        (JObj [(''version'', JStr ''1.0.0''),
               (''created'', JNum (clock env)),
               (''lastUpdated'', JNum (clock env)),
               (''sessionId'', JStr sid),
               (''totalCompleted'', JNum 0),
               (''completed'', JObj []),
               (''accessed'', JObj [])], t))"

definition validateDataStructure :: "jsval \<Rightarrow> bool" where
  "validateDataStructure data \<longleftrightarrow>
     truthy data \<and> typeof data = ''object''
     \<and> typeof (js_get data ''completed'') = ''object''
     \<and> typeof (js_get data ''accessed'') = ''object''
     \<and> typeof (js_get data ''lastUpdated'') = ''number''"




subsection \<open>Cleaning up and saving\<close>

definition ninety_days :: int where
  "ninety_days = 90 * 24 * 60 * 60 * 1000"

text \<open>
  The \<open>forEach\<close> over the keys of \<open>accessed\<close>: a record whose \<open>accessedAt\<close> is less
  than the cutoff is deleted. A record that is \<open>null\<close> makes the read of \<open>accessedAt\<close>
  throw; the deletions made before stay, the rest is not looked at.
\<close>

fun remove_old :: "(jsval \<Rightarrow> int option) \<Rightarrow> int \<Rightarrow> (string \<times> jsval) list
    \<Rightarrow> js_error option \<times> (string \<times> jsval) list" where
  "remove_old tn cutoffTime [] = (None, [])"
| "remove_old tn cutoffTime (p # ps) =
     (if nullish (snd p) then (Some (Err ''TypeError'' ''Cannot read properties of null''), p # ps)
      else
        (case remove_old tn cutoffTime ps of
           (err, rest) \<Rightarrow>
             (err, if js_lt tn (js_get (snd p) ''accessedAt'') cutoffTime then rest else p # rest)))"

text \<open>
  The comparator \<open>([,a], [,b]) => b.completedAt - a.completedAt\<close> orders the entries by
  \<open>completedAt\<close>, latest first, and \<open>Array.prototype.sort\<close> is stable. \<open>recency\<close> is the
  number the comparator sees. Where \<open>completedAt\<close> is not a number for some entry the
  comparator is not consistent and JavaScript leaves the order to the implementation;
  the model then counts the entry as 0.
\<close>

definition recency :: "(jsval \<Rightarrow> int option) \<Rightarrow> string \<times> jsval \<Rightarrow> int" where
  "recency tn p = (case js_to_number tn (js_get (snd p) ''completedAt'') of Some n \<Rightarrow> n | None \<Rightarrow> 0)"

definition most_recent_first :: "(jsval \<Rightarrow> int option) \<Rightarrow> (string \<times> jsval) list \<Rightarrow> (string \<times> jsval) list" where
  "most_recent_first tn ps = sort_key (\<lambda>p. - recency tn p) ps"

text \<open>
  \<open>cleanupOldData\<close> in its two parts, each returning the error it throws, if any, and
  the tracker as it is at that point. First the old access records are removed.
\<close>

definition remove_old_access :: "platform \<Rightarrow> tracker \<Rightarrow> js_error option \<times> tracker" where
  "remove_old_access env t =
     (let cutoffTime = clock env - ninety_days in
      case object_entries (js_get (completionData t) ''accessed'') of
        Inl e \<Rightarrow> (Some e, t)
      | Inr accessed \<Rightarrow>
          (case remove_old (to_num env) cutoffTime accessed of
             (err, remaining) \<Rightarrow>
               (err, if remaining = accessed then t
                     else t\<lparr>completionData := assign (completionData t) ''accessed'' (JObj remaining)\<rparr>)))"

text \<open>
  Then the completion records are cut down if there are more than 1000, and
  \<open>lastUpdated\<close> is set. With more than 1000 entries the comparator is called on every
  entry, so an entry that is \<open>null\<close> makes the sort throw. \<open>Object.fromEntries\<close> of
  entries taken from an object gives the object with just these entries.
\<close>

definition trim_completed :: "platform \<Rightarrow> tracker \<Rightarrow> js_error option \<times> tracker" where
  "trim_completed env t =
     (case object_entries (js_get (completionData t) ''completed'') of
        Inl e \<Rightarrow> (Some e, t)
      | Inr completedEntries \<Rightarrow>
          if length completedEntries > 1000 then
            (if list_ex (\<lambda>p. nullish (snd p)) completedEntries
             then (Some (Err ''TypeError'' ''Cannot read properties of null''), t)
             else
               (let sortedEntries = take 500 (most_recent_first (to_num env) completedEntries);
                    d = assign (completionData t) ''completed'' (JObj sortedEntries);
                    d = assign d ''totalCompleted'' (JNum (int (length sortedEntries)));
                    d = assign d ''lastUpdated'' (JNum (clock env))
                in (None, t\<lparr>completionData := d\<rparr>)))
          else
            (None, t\<lparr>completionData := assign (completionData t) ''lastUpdated'' (JNum (clock env))\<rparr>))"

definition cleanupOldData :: "platform \<Rightarrow> tracker \<Rightarrow> js_error option \<times> tracker" where
  "cleanupOldData env t =
     (case remove_old_access env t of
        (Some e, t) \<Rightarrow> (Some e, t)
      | (None, t) \<Rightarrow> trim_completed env t)"

text \<open>
  \<open>saveCompletionData\<close> calls itself after a cleanup, and nothing bounds the number of
  these calls but the call stack: the first argument is the number of frames left, and a
  call with none left throws a \<open>RangeError\<close>. A throw inside the \<open>try\<close> is caught by
  this call's \<open>catch\<close> (\<open>save_catch\<close> below is its body); a throw inside the
  \<open>catch\<close> leaves the function.
\<close>

fun saveCompletionData :: "nat \<Rightarrow> platform \<Rightarrow> tracker \<Rightarrow> (js_error + bool) \<times> tracker" where
  "saveCompletionData 0 env t = (Inl (Err ''RangeError'' ''Maximum call stack size exceeded''), t)"
| "saveCompletionData (Suc frames) env t =
     (case
        (let dataString = json_stringify env (completionData t) in
         if length dataString > maxStorageSize then
           (case cleanupOldData env t of
              (Some e, t) \<Rightarrow> (Inl e, t)
            | (None, t) \<Rightarrow> saveCompletionData frames env t)
         else
           (case set_item env dataString of
              Some e \<Rightarrow> (Inl e, t)
            | None \<Rightarrow> (Inr True, t\<lparr>storage_item := Some dataString\<rparr>)))
      of
        (Inr success, t) \<Rightarrow> (Inr success, t)
      | (Inl error, t) \<Rightarrow>
          if err_name error = ''QuotaExceededError'' then
            (case cleanupOldData env t of
               (Some e, t) \<Rightarrow> (Inl e, t)
             | (None, t) \<Rightarrow> saveCompletionData frames env t)
          else (Inr False, t))"

text \<open>
  The end of every public operation: \<open>const success = this.saveCompletionData(); ...
  return success\<close> inside the operation's \<open>try\<close>, whose \<open>catch\<close> returns false.
\<close>

definition save_and_return :: "nat \<Rightarrow> platform \<Rightarrow> tracker \<Rightarrow> bool \<times> tracker" where
  "save_and_return frames env t =
     (case saveCompletionData frames env t of
        (Inr success, t) \<Rightarrow> (success, t)
      | (Inl error, t) \<Rightarrow> (False, t))"

subsection \<open>Public operations\<close>

text \<open>\<open>Object.keys(this.completionData.completed).length\<close>, after a successful write or delete.\<close>

definition key_count :: "jsval \<Rightarrow> jsval" where
  "key_count completed = JNum (int (length (entries completed)))"

definition markCompleted ::
  "nat \<Rightarrow> platform \<Rightarrow> string \<Rightarrow> (string \<times> jsval) list \<Rightarrow> tracker \<Rightarrow> bool \<times> tracker" where
  "markCompleted frames env simulationId metadata t =
     (case getSessionId env t of (sid, t) \<Rightarrow>
        (let completionEntry = object_literal
               ([(''simulationId'', JStr simulationId),
                 (''completedAt'', JNum (clock env)),
                 (''completedDate'', JStr (iso_string env (clock env))),
                 (''sessionId'', JStr sid)] @ metadata)
         in case set_in (js_get (completionData t) ''completed'') simulationId completionEntry of
              Inl error \<Rightarrow> (False, t)
            | Inr completed \<Rightarrow>
                (let d = assign (completionData t) ''completed'' completed;
                     d = assign d ''lastUpdated'' (JNum (clock env));
                     d = assign d ''totalCompleted'' (key_count (js_get d ''completed''))
                 in save_and_return frames env (t\<lparr>completionData := d\<rparr>))))"

text \<open>\<open>(this.completionData.accessed[simulationId]?.count || 0) + 1\<close>.\<close>

definition next_count :: "platform \<Rightarrow> jsval \<Rightarrow> jsval" where
  "next_count env previous =
     (let c = (if nullish previous then JUndefined else js_get previous ''count'') in
      if \<not> truthy c then JNum 1
      else (case c of JNum n \<Rightarrow> JNum (n + 1) | other \<Rightarrow> plus_one env other))"

definition markAccessed ::
  "nat \<Rightarrow> platform \<Rightarrow> string \<Rightarrow> (string \<times> jsval) list \<Rightarrow> tracker \<Rightarrow> bool \<times> tracker" where
  "markAccessed frames env simulationId metadata t =
     (case getSessionId env t of (sid, t) \<Rightarrow>
        (case read_in (js_get (completionData t) ''accessed'') simulationId of
           Inl error \<Rightarrow> (False, t)
         | Inr previous \<Rightarrow>
             (let accessEntry = object_literal
                    ([(''simulationId'', JStr simulationId),
                      (''accessedAt'', JNum (clock env)),
                      (''accessedDate'', JStr (iso_string env (clock env))),
                      (''sessionId'', JStr sid),
                      (''count'', next_count env previous)] @ metadata)
              in case set_in (js_get (completionData t) ''accessed'') simulationId accessEntry of
                   Inl error \<Rightarrow> (False, t)
                 | Inr accessed \<Rightarrow>
                     (let d = assign (completionData t) ''accessed'' accessed;
                          d = assign d ''lastUpdated'' (JNum (clock env))
                      in save_and_return frames env (t\<lparr>completionData := d\<rparr>)))))"

definition clearCompletion :: "nat \<Rightarrow> platform \<Rightarrow> string \<Rightarrow> tracker \<Rightarrow> bool \<times> tracker" where
  "clearCompletion frames env simulationId t =
     (case delete_in (js_get (completionData t) ''completed'') simulationId of
        Inl error \<Rightarrow> (False, t)
      | Inr completed \<Rightarrow>
          (let d = (if completed = js_get (completionData t) ''completed'' then completionData t
                    else assign (completionData t) ''completed'' completed);
               d = assign d ''lastUpdated'' (JNum (clock env));
               d = assign d ''totalCompleted'' (key_count (js_get d ''completed''))
           in save_and_return frames env (t\<lparr>completionData := d\<rparr>)))"

definition clearAllData :: "nat \<Rightarrow> platform \<Rightarrow> tracker \<Rightarrow> bool \<times> tracker" where
  "clearAllData frames env t =
     (case createEmptyData env t of (d, t) \<Rightarrow>
        save_and_return frames env (t\<lparr>completionData := d\<rparr>))"

definition importData :: "nat \<Rightarrow> platform \<Rightarrow> string \<Rightarrow> tracker \<Rightarrow> bool \<times> tracker" where
  "importData frames env jsonData t =
     (case json_parse env jsonData of
        Inl error \<Rightarrow> (False, t)
      | Inr importedData \<Rightarrow>
          if \<not> validateDataStructure importedData then (False, t)
          else save_and_return frames env (t\<lparr>completionData := importedData\<rparr>))"

text \<open>
  The invariant of C10: \<open>completed\<close> is an object (or an array) and \<open>totalCompleted\<close>
  is the number of its keys.
\<close>

definition count_invariant :: "jsval \<Rightarrow> bool" where
  "count_invariant d \<longleftrightarrow>
     \<not> nullish (js_get d ''completed'')
     \<and> js_get d ''totalCompleted'' = key_count (js_get d ''completed'')"

text \<open>
  The text \<open>JSON.stringify(v)\<close> of a value other than \<open>undefined\<close>, for strings
  without control characters: properties with the value \<open>undefined\<close> are left out, and
  \<open>undefined\<close> in an array is written \<open>null\<close>.
\<close>

definition json_quote :: "string \<Rightarrow> string" where
  \<open>json_quote s =
     ''"'' @ concat (map (\<lambda>c. if c = CHR ''"'' \<or> c = CHR 0x5C then [CHR 0x5C, c] else [c]) s) @ ''"''\<close>

fun json_text :: "jsval \<Rightarrow> string" where
  "json_text JUndefined = ''null''"
| "json_text JNull = ''null''"
| "json_text (JBool b) = (if b then ''true'' else ''false'')"
| "json_text (JNum n) = show_int n"
| "json_text (JStr s) = json_quote s"
| "json_text (JArr xs) = ''['' @ join '','' (map json_text xs) @ '']''"
| "json_text (JObj ps) =
     ''{'' @ join '','' (map (\<lambda>p. json_quote (fst p) @ '':'' @ json_text (snd p))
                          (filter (\<lambda>p. snd p \<noteq> JUndefined) ps)) @ ''}''"

text \<open>
  A platform and stored texts used below. Its \<open>JSON.parse\<close> knows the texts that
  are used.
\<close>

definition old_raw :: string where
  \<open>old_raw = ''{"completed":{},"accessed":{},"lastUpdated":5}''\<close>

definition old_data :: jsval where
  "old_data = JObj [(''completed'', JObj []), (''accessed'', JObj []), (''lastUpdated'', JNum 5)]"

definition test_platform :: platform where
  "test_platform =
     \<lparr>clock = 1000, random_part = ''k3j9x'',
      iso_string = (\<lambda>t. ''1970-01-01T00:00:01.000Z''),
      json_parse = (\<lambda>s. if s = old_raw then Inr old_data
                          else Inl (Err ''SyntaxError'' ''Unexpected token'')),
      json_stringify = json_text,
      set_item = (\<lambda>s. None),
      to_num = (\<lambda>v. None),
      plus_one = (\<lambda>v. v)\<rparr>"







definition many_records :: "nat \<Rightarrow> (string \<times> jsval) list" where
  "many_records n = map (\<lambda>i. (show_nat i, JObj [(''completedAt'', JNum (int i))])) [0..<n]"


text \<open>
  A tracker as the constructor leaves it with nothing stored, and an import whose
  \<open>totalCompleted\<close> does not match its \<open>completed\<close>.
\<close>

definition fresh_tracker :: tracker where
  "fresh_tracker =
     \<lparr>completionData =
        JObj [(''version'', JStr ''1.0.0''), (''created'', JNum 1000), (''lastUpdated'', JNum 1000),
              (''sessionId'', JStr ''session_1000_k3j9x''), (''totalCompleted'', JNum 0),
              (''completed'', JObj []), (''accessed'', JObj [])],
      sessionId = Some ''session_1000_k3j9x'', storage_item = None\<rparr>"

definition inflated_raw :: string where
  \<open>inflated_raw = ''{"completed":{},"accessed":{},"lastUpdated":1,"totalCompleted":5}''\<close>

definition inflated_data :: jsval where
  "inflated_data =
     JObj [(''completed'', JObj []), (''accessed'', JObj []), (''lastUpdated'', JNum 1),
           (''totalCompleted'', JNum 5)]"

definition exported_raw :: string where
  \<open>exported_raw = ''{"completed":{},"accessed":{},"lastUpdated":1,"totalCompleted":0}''\<close>

definition exported_data :: jsval where
  "exported_data =
     JObj [(''completed'', JObj []), (''accessed'', JObj []), (''lastUpdated'', JNum 1),
           (''totalCompleted'', JNum 0)]"

definition import_platform :: platform where
  "import_platform =
     test_platform\<lparr>json_parse := (\<lambda>s. if s = inflated_raw then Inr inflated_data
                                        else if s = exported_raw then Inr exported_data
                                        else Inl (Err ''SyntaxError'' ''Unexpected token''))\<rparr>"







section \<open>Service worker: theorems\<close>

lemma isStaticAsset_css: "isStaticAsset css_request"
  by (simp add: isStaticAsset_def css_request_def static_extensions_def ends_with_def)

lemma isStaticAsset_cdn: "isStaticAsset cdn_request"
  by (simp add: isStaticAsset_def cdn_request_def static_extensions_def ends_with_def)

text \<open>
  C6, as stated, fails: a GET request for a static asset of another origin (not a PhET
  host) is a static-asset GET request, and the listener does not answer it with
  \<open>cacheFirst\<close>; it does not answer it at all.
\<close>

theorem C6_external_asset_not_cache_first:
  "req_method cdn_request = ''GET'' \<and> isStaticAsset cdn_request
     \<and> fetch_listener site cdn_request = NotHandled"
  using isStaticAsset_cdn
  by (simp add: fetch_listener_def cdn_request_def site_def)

text \<open>
  C6, amended. The listener answers a request with \<open>cacheFirst\<close> exactly when it is a
  GET request for a static asset whose origin is the worker's own or whose host name
  contains \<open>phet.colorado.edu\<close>. \<open>cacheFirst\<close> itself returns the cached response with
  no network request and no cache write when the cache has an entry for the request;
  with no entry it sends the request to the network once, returns the network's response
  and stores it only when the response is ok; when \<open>fetch\<close> throws (or the cache cannot
  be opened) it returns the 503 Service Unavailable response and stores nothing.
\<close>

theorem C6_cache_first:
  "(fetch_listener loc r = CacheFirst \<longleftrightarrow>
      req_method r = ''GET''
      \<and> (origin (req_url r) = loc \<or> str_includes (hostname (req_url r)) ''phet.colorado.edu'')
      \<and> isStaticAsset r)
   \<and> (cache r = Some c \<longrightarrow>
        cacheFirst (Inr cache) network r = \<lparr>returned = c, fetched = [], put_entries = []\<rparr>)
   \<and> (cache r = None \<and> network r = Inr n \<longrightarrow>
        cacheFirst (Inr cache) network r =
          \<lparr>returned = n, fetched = [r], put_entries = (if ok n then [(r, n)] else [])\<rparr>)
   \<and> (cache r = None \<and> network r = Inl e \<longrightarrow>
        cacheFirst (Inr cache) network r = \<lparr>returned = unavailable, fetched = [r], put_entries = []\<rparr>)
   \<and> cacheFirst (Inl e) network r = \<lparr>returned = unavailable, fetched = [], put_entries = []\<rparr>
   \<and> status unavailable = 503 \<and> statusText unavailable = ''Service Unavailable''"
  by (simp add: fetch_listener_def cacheFirst_def unavailable_def)

theorem C6_cache_first_witness:
  "fetch_listener site css_request = CacheFirst
   \<and> cacheFirst (Inr (Map.empty(css_request \<mapsto> page_200))) (\<lambda>q. Inl (Err ''TypeError'' ''offline'')) css_request
       = \<lparr>returned = page_200, fetched = [], put_entries = []\<rparr>
   \<and> cacheFirst (Inr Map.empty) (\<lambda>q. Inr page_200) css_request
       = \<lparr>returned = page_200, fetched = [css_request], put_entries = [(css_request, page_200)]\<rparr>
   \<and> cacheFirst (Inr Map.empty) (\<lambda>q. Inl (Err ''TypeError'' ''offline'')) css_request
       = \<lparr>returned = unavailable, fetched = [css_request], put_entries = []\<rparr>"
proof -
  have g: "req_method css_request = ''GET''" and o: "origin (req_url css_request) = site"
    by (simp_all add: css_request_def)
  have ok: "ok page_200" by (simp add: page_200_def)
  note t = C6_cache_first [of site css_request]
  have 1: "fetch_listener site css_request = CacheFirst"
    using t g o isStaticAsset_css by simp
  have 2: "cacheFirst (Inr (Map.empty(css_request \<mapsto> page_200))) (\<lambda>q. Inl (Err ''TypeError'' ''offline'')) css_request
       = \<lparr>returned = page_200, fetched = [], put_entries = []\<rparr>"
    using C6_cache_first [of site css_request "Map.empty(css_request \<mapsto> page_200)" page_200]
    by simp
  have 3: "cacheFirst (Inr Map.empty) (\<lambda>q. Inr page_200) css_request
       = \<lparr>returned = page_200, fetched = [css_request], put_entries = [(css_request, page_200)]\<rparr>"
    using C6_cache_first [of site css_request Map.empty page_200 "\<lambda>q. Inr page_200" page_200] ok
    by simp
  have 4: "cacheFirst (Inr Map.empty) (\<lambda>q. Inl (Err ''TypeError'' ''offline'')) css_request
       = \<lparr>returned = unavailable, fetched = [css_request], put_entries = []\<rparr>"
    using C6_cache_first [of site css_request Map.empty page_200
        "\<lambda>q. Inl (Err ''TypeError'' ''offline'')" page_200 "Err ''TypeError'' ''offline''"]
    by simp
  show ?thesis using 1 2 3 4 by simp
qed

section \<open>Teacher authentication: theorems\<close>

text \<open>The stored sessions are the JSON texts of the values they are parsed to.\<close>

lemma session_texts:
  "json_text (session_obj ''teacher'' 1000 5000) = valid_raw
   \<and> json_text (session_obj ''teacher'' 100 1500) = expired_raw
   \<and> json_text (session_obj [] 1000 5000) = blank_raw"
  by (simp add: session_obj_def valid_raw_def expired_raw_def blank_raw_def json_quote_def
      show_int_def show_nat.simps digit_char_def)

lemma read_session_fst:
  "fst (read_session st) =
     (if item_truthy (sessionStorage st sessionKey) then sessionStorage st sessionKey
      else localStorage st sessionKey)"
  by (simp add: read_session_def Let_def)

lemma read_session_unchanged:
  "\<not> item_truthy (fst (read_session st)) \<Longrightarrow> snd (read_session st) = st"
  by (auto simp: read_session_def Let_def)

lemma isLoggedIn_no_item:
  "\<not> item_truthy (fst (read_session st)) \<Longrightarrow> isLoggedIn parse to_number now st = (False, st)"
  using read_session_unchanged [of st]
  by (cases "read_session st") (simp add: isLoggedIn_def)

lemma isLoggedIn_item:
  assumes "fst (read_session st) = Some raw" "raw \<noteq> []"
  shows "isLoggedIn parse to_number now st =
     (case parse raw of
        Inl e \<Rightarrow> (False, clearSession (snd (read_session st)))
      | Inr session \<Rightarrow>
          if truthy (js_get session ''username'') \<and> truthy (js_get session ''loginTime'')
             \<and> truthy (js_get session ''expiresAt'')
             \<and> \<not> js_gt to_number now (js_get session ''expiresAt'')
          then (True, snd (read_session st))
          else (False, clearSession (snd (read_session st))))"
proof -
  have "nullish session \<Longrightarrow> \<not> truthy (js_get session ''username'')" for session
    by (auto simp: nullish_def)
  then show ?thesis
    using assms
    by (cases "read_session st") (auto simp: isLoggedIn_def split: sum.splits)
qed

lemma clearSession_keys:
  "sessionStorage (clearSession st) sessionKey = None \<and> localStorage (clearSession st) sessionKey = None"
  by (simp add: clearSession_def sessionKey_def)

text \<open>
  C7, as stated, fails in two ways. With an expired session left in \<open>sessionStorage\<close> and
  a valid one in \<open>localStorage\<close> (a second tab logged in later), a record that parses,
  has the three fields and is not expired exists in \<open>localStorage\<close>, and \<open>isLoggedIn\<close>
  returns false: only the \<open>sessionStorage\<close> item is looked at. And a record that
  has the three fields, one of them with a falsy value (here the user name \<open>""\<close>), and
  is not expired, is rejected.
\<close>

theorem C7_valid_record_rejected:
  "localStorage two_tabs sessionKey = Some valid_raw
   \<and> parse_sessions valid_raw
       = Inr (JObj [(''username'', JStr ''teacher''), (''loginTime'', JNum 1000), (''expiresAt'', JNum 5000)])
   \<and> (2000::int) \<le> 5000
   \<and> fst (isLoggedIn parse_sessions no_number 2000 two_tabs) = False
   \<and> sessionStorage blank_user sessionKey = Some blank_raw
   \<and> parse_sessions blank_raw
       = Inr (JObj [(''username'', JStr []), (''loginTime'', JNum 1000), (''expiresAt'', JNum 5000)])
   \<and> fst (isLoggedIn parse_sessions no_number 2000 blank_user) = False"
  by (simp add: isLoggedIn_def read_session_def two_tabs_def blank_user_def parse_sessions_def
      valid_raw_def expired_raw_def blank_raw_def session_obj_def js_gt_def nullish_def Let_def)

text \<open>
  C7, amended. The record looked at is the \<open>sessionStorage\<close> item when it is a
  non-empty string, and the \<open>localStorage\<close> item otherwise. \<open>isLoggedIn\<close> returns true
  if and only if that record is a non-empty string that parses as JSON to a value whose
  \<open>username\<close>, \<open>loginTime\<close> and \<open>expiresAt\<close> are all truthy and for which
  \<open>Date.now() > expiresAt\<close> is false. Whenever it returns false and one of the storages
  holds a non-empty item, the session key is afterwards absent from both storages; with
  no non-empty item it returns false and changes nothing.
\<close>

theorem C7_isLoggedIn:
  "(fst (isLoggedIn parse to_number now st) \<longleftrightarrow>
     (\<exists>raw session.
        (if item_truthy (sessionStorage st sessionKey) then sessionStorage st sessionKey
         else localStorage st sessionKey) = Some raw
        \<and> raw \<noteq> [] \<and> parse raw = Inr session
        \<and> truthy (js_get session ''username'') \<and> truthy (js_get session ''loginTime'')
        \<and> truthy (js_get session ''expiresAt'')
        \<and> \<not> js_gt to_number now (js_get session ''expiresAt'')))
   \<and> (\<not> fst (isLoggedIn parse to_number now st)
        \<and> (item_truthy (sessionStorage st sessionKey) \<or> item_truthy (localStorage st sessionKey))
      \<longrightarrow> sessionStorage (snd (isLoggedIn parse to_number now st)) sessionKey = None
          \<and> localStorage (snd (isLoggedIn parse to_number now st)) sessionKey = None)
   \<and> (\<not> item_truthy (sessionStorage st sessionKey) \<and> \<not> item_truthy (localStorage st sessionKey)
      \<longrightarrow> isLoggedIn parse to_number now st = (False, st))"
proof (cases "item_truthy (fst (read_session st))")
  case False
  then have none: "\<not> item_truthy (sessionStorage st sessionKey)" "\<not> item_truthy (localStorage st sessionKey)"
    by (auto simp: read_session_fst split: if_splits)
  have "\<And>raw. localStorage st sessionKey = Some raw \<Longrightarrow> raw = []"
    using none(2) by auto
  then show ?thesis
    using isLoggedIn_no_item [OF False, of parse to_number now] none by auto
next
  case True
  then obtain raw where raw: "fst (read_session st) = Some raw" "raw \<noteq> []"
    by (cases "fst (read_session st)") auto
  have some: "item_truthy (sessionStorage st sessionKey) \<or> item_truthy (localStorage st sessionKey)"
    using True by (auto simp: read_session_fst split: if_splits)
  have sel: "(if item_truthy (sessionStorage st sessionKey) then sessionStorage st sessionKey
         else localStorage st sessionKey) = Some raw"
    using raw(1) by (simp add: read_session_fst)
  show ?thesis
    using isLoggedIn_item [OF raw, of parse to_number now] some sel clearSession_keys
    by (cases "parse raw") (auto split: if_splits)
qed

theorem C7_isLoggedIn_witness:
  "fst (isLoggedIn parse_sessions no_number 2000 new_tab)
   \<and> \<not> fst (isLoggedIn parse_sessions no_number 2000 two_tabs)
   \<and> sessionStorage (snd (isLoggedIn parse_sessions no_number 2000 two_tabs)) sessionKey = None
   \<and> localStorage (snd (isLoggedIn parse_sessions no_number 2000 two_tabs)) sessionKey = None
   \<and> isLoggedIn parse_sessions no_number 2000 logged_out = (False, logged_out)"
proof -
  have 1: "fst (isLoggedIn parse_sessions no_number 2000 new_tab)"
    using C7_isLoggedIn [of parse_sessions no_number 2000 new_tab]
    by (simp add: new_tab_def parse_sessions_def session_obj_def js_gt_def valid_raw_def)
  have 2: "\<not> fst (isLoggedIn parse_sessions no_number 2000 two_tabs)"
    using C7_isLoggedIn [of parse_sessions no_number 2000 two_tabs]
    by (simp add: two_tabs_def parse_sessions_def session_obj_def js_gt_def
        valid_raw_def expired_raw_def blank_raw_def)
  have 3: "sessionStorage (snd (isLoggedIn parse_sessions no_number 2000 two_tabs)) sessionKey = None
     \<and> localStorage (snd (isLoggedIn parse_sessions no_number 2000 two_tabs)) sessionKey = None"
    using C7_isLoggedIn [of parse_sessions no_number 2000 two_tabs] 2
    by (simp add: two_tabs_def expired_raw_def)
  have 4: "isLoggedIn parse_sessions no_number 2000 logged_out = (False, logged_out)"
    using C7_isLoggedIn [of parse_sessions no_number 2000 logged_out]
    by (simp add: logged_out_def)
  show ?thesis using 1 2 3 4 by simp
qed

section \<open>PhET integration: theorems\<close>

lemma timeout_message: "show_nat (loadingTimeout div 1000) = ''30''"
  by (simp add: loadingTimeout_def show_nat.simps digit_char_def)

lemma deliver_finished: "finished s \<Longrightarrow> deliver title s e = s"
  by (cases e) (simp_all add: finished_def)

lemma foldl_deliver_finished: "finished s \<Longrightarrow> foldl (deliver title) s es = s"
  by (induction es) (simp_all add: deliver_finished)

lemma deliver_tick_pending: "pending s \<Longrightarrow> is_tick e \<Longrightarrow> pending (deliver title s e)"
  by (cases e) (simp_all add: pending_def onProgress_def)

lemma foldl_ticks_pending:
  "pending s \<Longrightarrow> \<forall>e\<in>set es. is_tick e \<Longrightarrow> pending (foldl (deliver title) s es)"
  by (induction es arbitrary: s) (simp_all add: deliver_tick_pending)

lemma deliver_settles:
  "pending s \<Longrightarrow> \<not> is_tick e \<Longrightarrow>
     finished (deliver title s e) \<and> settlements (deliver title s e) = [outcome_of title e]"
  by (cases e) (simp_all add: pending_def finished_def onLoad_def onError_def onTimeout_def
      cleanup_def timeout_message Let_def)

lemma pending_start: "pending (loadSimulation simulation)"
  by (simp add: pending_def loadSimulation_def)

text \<open>
  C2. \<open>loadSimulation\<close> settles exactly once. While only the progress interval has fired
  the promise is unsettled and the two listeners, the 30-second timeout and the interval
  are all still in place, so one of the three events is still to come. The first event
  that is a load, an error or the timeout settles it: a load resolves, an error or the
  timeout rejects. With that event the timeout and the interval are cleared and both
  listeners removed, and whatever happens afterwards changes nothing: the state after
  any later events is the state right after the settling event.
\<close>

theorem C2_settles_once:
  "((\<forall>e\<in>set es. is_tick e) \<longrightarrow>
      settlements (run_events title simulation es) = []
      \<and> loadTimeout (run_events title simulation es)
      \<and> progressInterval (run_events title simulation es)
      \<and> loadListener (run_events title simulation es)
      \<and> errorListener (run_events title simulation es))
   \<and> ((\<forall>e\<in>set pre. is_tick e) \<and> \<not> is_tick e \<longrightarrow>
      settlements (run_events title simulation (pre @ e # post)) = [outcome_of title e]
      \<and> \<not> loadTimeout (run_events title simulation (pre @ e # post))
      \<and> \<not> progressInterval (run_events title simulation (pre @ e # post))
      \<and> \<not> loadListener (run_events title simulation (pre @ e # post))
      \<and> \<not> errorListener (run_events title simulation (pre @ e # post))
      \<and> run_events title simulation (pre @ e # post) = run_events title simulation (pre @ [e]))"
proof (intro conjI impI)
  assume "\<forall>e\<in>set es. is_tick e"
  then have "pending (run_events title simulation es)"
    unfolding run_events_def by (rule foldl_ticks_pending [OF pending_start])
  then show "settlements (run_events title simulation es) = []"
    "loadTimeout (run_events title simulation es)"
    "progressInterval (run_events title simulation es)"
    "loadListener (run_events title simulation es)"
    "errorListener (run_events title simulation es)"
    by (simp_all add: pending_def)
next
  assume a: "(\<forall>e\<in>set pre. is_tick e) \<and> \<not> is_tick e"
  let ?s = "foldl (deliver title) (loadSimulation simulation) pre"
  have p: "pending ?s" using a foldl_ticks_pending [OF pending_start] by blast
  have f: "finished (deliver title ?s e)" and o: "settlements (deliver title ?s e) = [outcome_of title e]"
    using deliver_settles [OF p, of e title] a by simp_all
  have eq: "run_events title simulation (pre @ e # post) = deliver title ?s e"
    by (simp add: run_events_def foldl_deliver_finished [OF f])
  show "settlements (run_events title simulation (pre @ e # post)) = [outcome_of title e]"
    "\<not> loadTimeout (run_events title simulation (pre @ e # post))"
    "\<not> progressInterval (run_events title simulation (pre @ e # post))"
    "\<not> loadListener (run_events title simulation (pre @ e # post))"
    "\<not> errorListener (run_events title simulation (pre @ e # post))"
    "run_events title simulation (pre @ e # post) = run_events title simulation (pre @ [e])"
    using f o unfolding eq by (simp_all add: finished_def run_events_def)
qed

theorem C2_settles_once_witness:
  "settlements (run_events ''Pendulum Lab'' pendulum [IntervalElapsed 7, IntervalElapsed 3]) = []
   \<and> loadTimeout (run_events ''Pendulum Lab'' pendulum [IntervalElapsed 7, IntervalElapsed 3])
   \<and> settlements (run_events ''Pendulum Lab'' pendulum
         [IntervalElapsed 7, IframeLoad, TimeoutElapsed, IframeError, IntervalElapsed 2])
       = [Resolved]
   \<and> settlements (run_events ''Pendulum Lab'' pendulum
         [IntervalElapsed 7, TimeoutElapsed, IframeLoad, IntervalElapsed 2])
       = [Rejected (Err ''Error'' ''Simulation loading timed out after 30 seconds'')]
   \<and> settlements (run_events ''Pendulum Lab'' pendulum [IframeError, IframeLoad])
       = [Rejected (Err ''Error'' ''Failed to load simulation: Pendulum Lab'')]"
proof -
  have ticks: "\<forall>e\<in>set [IntervalElapsed 7, IntervalElapsed 3]. is_tick e" by simp
  have 1: "settlements (run_events ''Pendulum Lab'' pendulum [IntervalElapsed 7, IntervalElapsed 3]) = []
     \<and> loadTimeout (run_events ''Pendulum Lab'' pendulum [IntervalElapsed 7, IntervalElapsed 3])"
    using C2_settles_once [THEN conjunct1, THEN mp, OF ticks] by simp
  have 2: "settlements (run_events ''Pendulum Lab'' pendulum
         ([IntervalElapsed 7] @ IframeLoad # [TimeoutElapsed, IframeError, IntervalElapsed 2]))
       = [outcome_of ''Pendulum Lab'' IframeLoad]"
    by (rule C2_settles_once [THEN conjunct2, THEN mp, THEN conjunct1]) simp
  have 3: "settlements (run_events ''Pendulum Lab'' pendulum
         ([IntervalElapsed 7] @ TimeoutElapsed # [IframeLoad, IntervalElapsed 2]))
       = [outcome_of ''Pendulum Lab'' TimeoutElapsed]"
    by (rule C2_settles_once [THEN conjunct2, THEN mp, THEN conjunct1]) simp
  have 4: "settlements (run_events ''Pendulum Lab'' pendulum ([] @ IframeError # [IframeLoad]))
       = [outcome_of ''Pendulum Lab'' IframeError]"
    by (rule C2_settles_once [THEN conjunct2, THEN mp, THEN conjunct1]) simp
  show ?thesis using 1 2 3 4 by simp
qed

lemma validateSimulation_ok:
  "validateSimulation parse_url simulation = Inr () \<longleftrightarrow> valid_simulation parse_url simulation"
  by (auto simp: validateSimulation_def valid_simulation_def isValidPhETUrl_def split: option.splits)

lemma validateSimulation_cases:
  "valid_simulation parse_url simulation \<or> (\<exists>e. validateSimulation parse_url simulation = Inl e)"
  using validateSimulation_ok [of parse_url simulation]
  by (cases "validateSimulation parse_url simulation") auto

lemma set_alist_set: "set (alist_set k v ps) \<subseteq> insert (k, v) (set ps)"
  by (induction ps) (auto split: if_splits)

lemma valid_points: "valid_simulation parse_url sim \<Longrightarrow> points_at_phet parse_url (js_get sim ''phetUrl'')"
  by (auto simp: valid_simulation_def points_at_phet_def)

text \<open>The only value that \<open>embedSimulation\<close> assigns to a \<open>src\<close> is the \<open>phetUrl\<close>.\<close>

lemma embed_iframe_src:
  "embed_iframe env simulation markup outcome = (err, acts) \<Longrightarrow> AssignSrc v \<in> set acts \<Longrightarrow>
   v = js_get simulation ''phetUrl''"
  by (auto simp: embed_iframe_def Let_def split: sum.splits if_splits settlement.splits)

lemma embed_step:
  assumes "all_valid parse_url st"
    and "embedSimulation parse_url env container simulation options outcome st = (r, st', acts)"
  shows "all_valid parse_url st' \<and> (\<forall>v. AssignSrc v \<in> set acts \<longrightarrow> points_at_phet parse_url v)"
proof (cases "container \<and> validateSimulation parse_url simulation = Inr ()")
  case False
  then have "st' = st \<and> acts = []"
    using assms(2) by (auto simp: embedSimulation_def split: sum.splits if_splits)
  then show ?thesis using assms(1) by simp
next
  case True
  then have v: "valid_simulation parse_url simulation" by (simp add: validateSimulation_ok)
  have src: "\<forall>v. AssignSrc v \<in> set acts \<longrightarrow> points_at_phet parse_url v"
    using assms(2) True valid_points [OF v]
    by (auto simp: embedSimulation_def split: sum.splits prod.splits option.splits
        dest: embed_iframe_src)
  have "set (loadedSimulations st') \<subseteq> insert (js_get simulation ''id'', simulation) (set (loadedSimulations st))"
    using assms(2) True set_alist_set [of "js_get simulation ''id''" simulation "loadedSimulations st"]
    by (auto simp: embedSimulation_def split: sum.splits prod.splits option.splits)
  then have "all_valid parse_url st'"
    using assms(1) v unfolding all_valid_def by auto
  then show ?thesis using src by simp
qed

lemma reload_step:
  assumes "all_valid parse_url st"
    and "reloadSimulation simulationId outcome st = (r, st', acts)"
  shows "st' = st \<and> (\<forall>v. AssignSrc v \<in> set acts \<longrightarrow> points_at_phet parse_url v)"
proof (cases "map_of (loadedSimulations st) simulationId")
  case None
  then show ?thesis using assms(2) by (simp add: reloadSimulation_def)
next
  case (Some sim)
  then have "(simulationId, sim) \<in> set (loadedSimulations st)" by (rule map_of_SomeD)
  then have "valid_simulation parse_url sim" using assms(1) unfolding all_valid_def by force
  then have "points_at_phet parse_url (js_get sim ''phetUrl'')" by (rule valid_points)
  then show ?thesis using assms(2) Some
    by (cases outcome) (auto simp: reloadSimulation_def)
qed

lemma remove_step: "all_valid parse_url st \<Longrightarrow> all_valid parse_url (removeSimulation k st)"
  by (auto simp: all_valid_def removeSimulation_def alist_delete_def)

lemma run_calls_src:
  "all_valid parse_url st \<Longrightarrow> AssignSrc v \<in> set (run_calls parse_url env st cs) \<Longrightarrow>
   points_at_phet parse_url v"
proof (induction cs arbitrary: st)
  case Nil
  then show ?case by simp
next
  case (Cons c cs)
  show ?case
  proof (cases c)
    case (Embed container simulation options outcome)
    obtain r st' acts
      where e: "embedSimulation parse_url env container simulation options outcome st = (r, st', acts)"
      by (cases "embedSimulation parse_url env container simulation options outcome st") auto
    from embed_step [OF Cons.prems(1) e] Cons.IH [of st'] Cons.prems(2) Embed e
    show ?thesis by auto
  next
    case (Reload simulationId outcome)
    obtain r st' acts where e: "reloadSimulation simulationId outcome st = (r, st', acts)"
      by (cases "reloadSimulation simulationId outcome st") auto
    from reload_step [OF Cons.prems(1) e] Cons.IH [of st'] Cons.prems Reload e
    show ?thesis by auto
  next
    case (Remove simulationId)
    with Cons.IH [OF remove_step [OF Cons.prems(1)]] Cons.prems(2)
    show ?thesis by simp
  qed
qed

text \<open>A string substituted into a template literal is part of the result as it is.\<close>

lemma starts_with_iff: "starts_with xs t \<longleftrightarrow> (\<exists>b. xs = t @ b)"
  by (induction xs t rule: starts_with.induct) auto

lemma ends_with_iff: "ends_with xs t \<longleftrightarrow> (\<exists>a. xs = a @ t)"
proof
  assume "ends_with xs t"
  then obtain b where "rev xs = rev t @ b" by (auto simp: ends_with_def starts_with_iff)
  then have "xs = rev b @ t" by (metis rev_append rev_rev_ident)
  then show "\<exists>a. xs = a @ t" by blast
next
  assume "\<exists>a. xs = a @ t"
  then show "ends_with xs t" by (auto simp: ends_with_def starts_with_iff)
qed

lemma str_includes_iff: "str_includes xs t \<longleftrightarrow> (\<exists>a b. xs = a @ t @ b)"
proof
  show "str_includes xs t \<Longrightarrow> \<exists>a b. xs = a @ t @ b"
  proof (induction xs)
    case Nil
    then show ?case by simp
  next
    case (Cons d s)
    from Cons.prems consider "starts_with (d # s) t" | "str_includes s t" by auto
    then show ?case
    proof cases
      case 1
      then obtain b where "d # s = t @ b" by (auto simp: starts_with_iff)
      then have "d # s = [] @ t @ b" by simp
      then show ?thesis by blast
    next
      case 2
      then obtain a b where "s = a @ t @ b" using Cons.IH by blast
      then have "d # s = (d # a) @ t @ b" by simp
      then show ?thesis by blast
    qed
  qed
next
  assume "\<exists>a b. xs = a @ t @ b"
  then obtain a b where x: "xs = a @ t @ b" by blast
  have "starts_with (t @ b) t" by (simp add: starts_with_iff)
  then have "str_includes (t @ b) t" by (cases "t @ b"; cases t) auto
  then show "str_includes xs t"
    unfolding x by (induction a) auto
qed

lemma str_includes_trans: "str_includes xs ys \<Longrightarrow> str_includes ys t \<Longrightarrow> str_includes xs t"
proof -
  assume "str_includes xs ys" "str_includes ys t"
  then obtain a b c d where "xs = a @ ys @ b" "ys = c @ t @ d"
    unfolding str_includes_iff by blast
  then have "xs = (a @ c) @ t @ (d @ b)" by simp
  then show ?thesis unfolding str_includes_iff by blast
qed

lemma interpolate_sub:
  "interpolate ps = Inr m \<Longrightarrow> Sub x \<in> set ps \<Longrightarrow>
   \<exists>v s. x = Inr v \<and> to_string v = Inr s \<and> str_includes m s"
proof (induction ps arbitrary: m)
  case Nil
  then show ?case by simp
next
  case (Cons p ps)
  show ?case
  proof (cases p)
    case (Lit l)
    then obtain r where r: "interpolate ps = Inr r" "m = l @ r"
      using Cons.prems(1) by (auto split: sum.splits)
    have "Sub x \<in> set ps" using Cons.prems(2) Lit by simp
    then obtain v s where "x = Inr v" "to_string v = Inr s" "str_includes r s"
      using Cons.IH r(1) by blast
    moreover have "str_includes m s"
      using \<open>str_includes r s\<close> unfolding r(2) str_includes_iff by (metis append.assoc)
    ultimately show ?thesis by blast
  next
    case (Sub y)
    then obtain v sv r where r: "y = Inr v" "to_string v = Inr sv" "interpolate ps = Inr r"
      "m = sv @ r"
      using Cons.prems(1) by (auto split: sum.splits)
    show ?thesis
    proof (cases "x = y")
      case True
      have "m = [] @ sv @ r" using r(4) by simp
      then have "str_includes m sv" unfolding str_includes_iff by blast
      then show ?thesis using True r(1,2) by blast
    next
      case False
      then have "Sub x \<in> set ps" using Cons.prems(2) Sub by simp
      then obtain v' s where s: "x = Inr v'" "to_string v' = Inr s" "str_includes r s"
        using Cons.IH r(3) by blast
      have "str_includes m s"
        using s(3) unfolding r(4) str_includes_iff by (metis append.assoc)
      then show ?thesis using s(1,2) by blast
    qed
  qed
qed

lemma interpolate_between:
  assumes "interpolate (Lit a # Sub (Inr (JStr s)) # Lit b # ps) = Inr m"
    and "ends_with a x" "starts_with b y"
  shows "str_includes m (x @ s @ y)"
proof -
  obtain r where m: "m = a @ s @ b @ r"
    using assms(1) by (auto split: sum.splits)
  obtain p where a: "a = p @ x" using assms(2) by (auto simp: ends_with_iff)
  obtain q where b: "b = y @ q" using assms(3) by (auto simp: starts_with_iff)
  have "m = p @ (x @ s @ y) @ (q @ r)" by (simp add: m a b)
  then show ?thesis unfolding str_includes_iff by blast
qed

text \<open>
  The markup of the wrapper contains the title, and with a header the title is the
  content of the heading: the text between its tags is the title as it is.
\<close>

lemma header_title:
  assumes "createHeaderHTML proto simulation = Inr h"
    and "js_get simulation ''title'' = JStr s"
  shows "str_includes h (title_element s)"
  unfolding title_element_def
  by (rule interpolate_between [OF assms(1) [unfolded createHeaderHTML_def assms(2)]])
     (simp_all add: text_lines_def ends_with_def)

lemma wrapper_pieces:
  assumes "createSimulationWrapper proto simulation options = Inr markup"
  shows "\<exists>ps. interpolate ps = Inr markup
           \<and> Sub (Inr (js_get simulation ''title'')) \<in> set ps
           \<and> Sub (unless_false options ''showHeader'' (createHeaderHTML proto simulation)) \<in> set ps"
proof (cases "to_string (js_get simulation ''id'')")
  case (Inl e)
  then show ?thesis using assms by (simp add: createSimulationWrapper_def)
next
  case (Inr ident)
  then show ?thesis
    using assms unfolding createSimulationWrapper_def
    apply (simp only: sum.case)
    apply (rule exI, rule conjI, assumption)
    apply (simp only: list.set insert_iff simp_thms)
    done
qed

lemma wrapper_includes_title:
  assumes "createSimulationWrapper proto simulation options = Inr markup"
    and "js_get simulation ''title'' = JStr s"
  shows "str_includes markup s"
proof -
  obtain ps where ps: "interpolate ps = Inr markup" "Sub (Inr (js_get simulation ''title'')) \<in> set ps"
    using wrapper_pieces [OF assms(1)] by blast
  show ?thesis
    using interpolate_sub [OF ps] assms(2) by auto
qed

lemma unless_false_html:
  "unless_false options name html = Inr v \<Longrightarrow> js_get options name \<noteq> JBool False \<Longrightarrow>
   \<exists>h. html = Inr h \<and> v = JStr h"
  by (auto simp: unless_false_def get_prop_def split: sum.splits if_splits)

lemma wrapper_includes_heading:
  assumes "createSimulationWrapper proto simulation options = Inr markup"
    and "js_get simulation ''title'' = JStr s"
    and "js_get options ''showHeader'' \<noteq> JBool False"
  shows "str_includes markup (title_element s)"
proof -
  obtain ps where ps: "interpolate ps = Inr markup"
    "Sub (unless_false options ''showHeader'' (createHeaderHTML proto simulation)) \<in> set ps"
    using wrapper_pieces [OF assms(1)] by blast
  obtain v t where v: "unless_false options ''showHeader'' (createHeaderHTML proto simulation) = Inr v"
    "to_string v = Inr t" "str_includes markup t"
    using interpolate_sub [OF ps] by blast
  obtain h where h: "createHeaderHTML proto simulation = Inr h" "v = JStr h"
    using unless_false_html [OF v(1) assms(3)] by blast
  have "str_includes markup h" using v(2,3) h(2) by simp
  then show ?thesis using header_title [OF h(1) assms(2)] by (rule str_includes_trans)
qed

lemma embed_markup:
  assumes "container" "validateSimulation parse_url simulation = Inr ()"
    and "createSimulationWrapper (prototype_text env) simulation
           (if options = JUndefined then JObj [] else options) = Inr markup"
  shows "\<exists>r st' acts. embedSimulation parse_url env container simulation options outcome st
           = (r, st', SetInnerHTML markup # AppendWrapper # acts)"
  using assms
  by (cases "embed_iframe env simulation markup outcome")
     (auto simp: embedSimulation_def split: option.splits)

text \<open>
  C9. \<open>embedSimulation\<close> throws, having done nothing to the document and leaving the
  integration object as it was, unless the simulation is an object with truthy \<open>id\<close>,
  \<open>title\<close> and \<open>phetUrl\<close> whose \<open>phetUrl\<close> parses as a URL with host name exactly
  \<open>phet.colorado.edu\<close> and a path containing \<open>/sims/\<close>. Whatever calls of
  \<open>embedSimulation\<close>, \<open>reloadSimulation\<close> and \<open>removeSimulation\<close> are made on a new
  integration object, every value assigned to an iframe's \<open>src\<close> parses as a URL of the
  host \<open>phet.colorado.edu\<close>. The document is not held to the whitelist, though: for a
  simulation that passes the validation, the markup that \<open>embedSimulation\<close> assigns to
  the wrapper's \<open>innerHTML\<close> and appends to the container contains the title as it is,
  and unless \<open>options.showHeader\<close> is \<open>false\<close> the title is, unescaped, what stands
  between the tags of the heading. A title which is the markup of an iframe puts that
  iframe, with the \<open>src\<close> it names, into the page.
\<close>

theorem C9_embedSimulation:
  "(\<not> (truthy simulation \<and> typeof simulation = ''object''
        \<and> truthy (js_get simulation ''id'') \<and> truthy (js_get simulation ''title'')
        \<and> truthy (js_get simulation ''phetUrl'')
        \<and> (\<exists>u. parse_url (js_get simulation ''phetUrl'') = Some u
               \<and> hostname u = ''phet.colorado.edu'' \<and> str_includes (pathname u) ''/sims/''))
     \<longrightarrow> (\<exists>e. embedSimulation parse_url env container simulation options outcome st = (Inl e, st, [])))
   \<and> (AssignSrc v \<in> set (run_calls parse_url env new_integration calls)
     \<longrightarrow> (\<exists>u. parse_url v = Some u \<and> hostname u = ''phet.colorado.edu''))
   \<and> (container \<and> validateSimulation parse_url simulation = Inr ()
      \<and> createSimulationWrapper (prototype_text env) simulation
           (if options = JUndefined then JObj [] else options) = Inr markup
      \<and> js_get simulation ''title'' = JStr title
     \<longrightarrow> (\<exists>r st' acts. embedSimulation parse_url env container simulation options outcome st
                           = (r, st', SetInnerHTML markup # AppendWrapper # acts))
         \<and> str_includes markup title
         \<and> (js_get options ''showHeader'' \<noteq> JBool False
              \<longrightarrow> str_includes markup (title_element title)))"
proof (intro conjI impI)
  assume "\<not> (truthy simulation \<and> typeof simulation = ''object''
        \<and> truthy (js_get simulation ''id'') \<and> truthy (js_get simulation ''title'')
        \<and> truthy (js_get simulation ''phetUrl'')
        \<and> (\<exists>u. parse_url (js_get simulation ''phetUrl'') = Some u
               \<and> hostname u = ''phet.colorado.edu'' \<and> str_includes (pathname u) ''/sims/''))"
  then have "\<not> valid_simulation parse_url simulation" by (simp add: valid_simulation_def)
  then obtain e where "validateSimulation parse_url simulation = Inl e"
    using validateSimulation_cases by blast
  then show "\<exists>e. embedSimulation parse_url env container simulation options outcome st = (Inl e, st, [])"
    by (simp add: embedSimulation_def)
next
  assume "AssignSrc v \<in> set (run_calls parse_url env new_integration calls)"
  moreover have "all_valid parse_url new_integration"
    by (simp add: all_valid_def new_integration_def)
  ultimately have "points_at_phet parse_url v" by (rule run_calls_src [rotated])
  then show "\<exists>u. parse_url v = Some u \<and> hostname u = ''phet.colorado.edu''"
    by (simp add: points_at_phet_def)
next
  assume a: "container \<and> validateSimulation parse_url simulation = Inr ()
      \<and> createSimulationWrapper (prototype_text env) simulation
           (if options = JUndefined then JObj [] else options) = Inr markup
      \<and> js_get simulation ''title'' = JStr title"
  then show "\<exists>r st' acts. embedSimulation parse_url env container simulation options outcome st
                           = (r, st', SetInnerHTML markup # AppendWrapper # acts)"
    using embed_markup by blast
  from a show "str_includes markup title"
    using wrapper_includes_title by blast
  assume h: "js_get options ''showHeader'' \<noteq> JBool False"
  have "js_get (if options = JUndefined then JObj [] else options) ''showHeader'' \<noteq> JBool False"
    using h by simp
  with a show "str_includes markup (title_element title)"
    using wrapper_includes_heading by blast
qed

text \<open>
  The markup for \<open>pendulum\<close> and for \<open>framed\<close> with the default options: no
  substitution throws.
\<close>

lemma wrapper_of_records:
  "\<exists>m. createSimulationWrapper (prototype_text test_browser) pendulum (JObj []) = Inr m"
  "\<exists>m. createSimulationWrapper (prototype_text test_browser) framed (JObj []) = Inr m"
  by (simp_all add: createSimulationWrapper_def createHeaderHTML_def createControlsHTML_def
      unless_false_def get_prop_def nullish_def getSubjectName_def getDifficultyName_def
      name_or_id_def test_browser_def pendulum_def framed_def)

lemma valid_records:
  "validateSimulation parse_url_table pendulum = Inr ()"
  "validateSimulation parse_url_table framed = Inr ()"
  by (simp_all add: validateSimulation_def isValidPhETUrl_def pendulum_def framed_def
      iframe_markup_def parse_url_table_def)

theorem C9_embedSimulation_witness:
  "(\<exists>e. embedSimulation parse_url_table test_browser True evil JUndefined Resolved new_integration
          = (Inl e, new_integration, []))
   \<and> AssignSrc (JStr ''https://phet.colorado.edu/sims/html/pendulum-lab/latest/pendulum-lab_en.html'')
       \<in> set (run_calls parse_url_table test_browser new_integration
                 [Embed True evil JUndefined Resolved, Embed True pendulum JUndefined Resolved,
                  Reload (JStr ''pendulum-lab'') Resolved])
   \<and> (\<exists>u. parse_url_table (JStr ''https://phet.colorado.edu/sims/html/pendulum-lab/latest/pendulum-lab_en.html'') = Some u
          \<and> hostname u = ''phet.colorado.edu'')
   \<and> validateSimulation parse_url_table framed = Inr ()
   \<and> js_get framed ''title'' = JStr iframe_markup
   \<and> (\<exists>markup r st' acts.
         embedSimulation parse_url_table test_browser True framed JUndefined Resolved new_integration
           = (r, st', SetInnerHTML markup # AppendWrapper # acts)
         \<and> str_includes markup iframe_markup
         \<and> str_includes markup (title_element iframe_markup))"
proof -
  have 1: "\<exists>e. embedSimulation parse_url_table test_browser True evil JUndefined Resolved new_integration
      = (Inl e, new_integration, [])"
    by (rule C9_embedSimulation [THEN conjunct1, THEN mp]) (simp add: evil_def parse_url_table_def)
  obtain mk where wp: "createSimulationWrapper (prototype_text test_browser) pendulum (JObj []) = Inr mk"
    using wrapper_of_records(1) by blast
  obtain mf where wf: "createSimulationWrapper (prototype_text test_browser) framed (JObj []) = Inr mf"
    using wrapper_of_records(2) by blast
  have e: "embedSimulation parse_url_table test_browser True evil JUndefined Resolved new_integration
      = (Inl (Err ''Error'' ''Invalid PhET URL''), new_integration, [])"
    by (simp add: embedSimulation_def validateSimulation_def isValidPhETUrl_def evil_def
        parse_url_table_def)
  have p: "\<exists>attributes. embedSimulation parse_url_table test_browser True pendulum JUndefined Resolved new_integration
      = (Inr (), \<lparr>loadedSimulations = [(JStr ''pendulum-lab'', pendulum)]\<rparr>,
         [SetInnerHTML mk, AppendWrapper, AppendIframe attributes,
          AssignSrc (JStr ''https://phet.colorado.edu/sims/html/pendulum-lab/latest/pendulum-lab_en.html'')])"
    by (simp add: embedSimulation_def valid_records wp)
      (simp add: embed_iframe_def createSecureIframe_def new_integration_def test_browser_def
        pendulum_def)
  have m: "AssignSrc (JStr ''https://phet.colorado.edu/sims/html/pendulum-lab/latest/pendulum-lab_en.html'')
       \<in> set (run_calls parse_url_table test_browser new_integration
                 [Embed True evil JUndefined Resolved, Embed True pendulum JUndefined Resolved,
                  Reload (JStr ''pendulum-lab'') Resolved])"
    using p by (auto simp: e)
  have t: "js_get framed ''title'' = JStr iframe_markup" by (simp add: framed_def)
  have 3: "(\<exists>r st' acts.
         embedSimulation parse_url_table test_browser True framed JUndefined Resolved new_integration
           = (r, st', SetInnerHTML mf # AppendWrapper # acts))
         \<and> str_includes mf iframe_markup
         \<and> (js_get JUndefined ''showHeader'' \<noteq> JBool False
              \<longrightarrow> str_includes mf (title_element iframe_markup))"
    by (rule C9_embedSimulation [THEN conjunct2, THEN conjunct2, THEN mp])
      (simp add: valid_records wf t)
  then have 4: "str_includes mf (title_element iframe_markup)" by simp
  from C9_embedSimulation [THEN conjunct2, THEN conjunct1, THEN mp, OF m] 1 m valid_records(2) t 3 4
  show ?thesis by blast
qed

section \<open>Data manager: theorems\<close>

lemma attempt_once_ok:
  "attempt_once network cacheKey attempt = Inr data \<longleftrightarrow>
     (\<exists>response. network attempt = Inr response \<and> resp_ok response
        \<and> resp_json response = Inr data \<and> validateData data cacheKey = Inr ())"
  by (auto simp: attempt_once_def split: sum.splits)

text \<open>
  C3. With the constructor's settings (three attempts, a delay of 1000 ms),
  \<open>fetchWithRetry\<close> makes at most three fetches. An attempt succeeds exactly when its
  response is ok, its body parses as JSON and the data passes \<open>validateData\<close>; the data
  of the first attempt that succeeds is returned and no further fetch is made. After a
  failed first attempt it waits 1000 ms and after a failed second attempt 2000 ms (the
  delay times the attempt number); there is no wait after the third. It throws only when
  all three attempts have failed, and the message ends with the message of the third
  failure.
\<close>

theorem C3_fetchWithRetry:
  "(attempt_once network cacheKey k = Inr data \<longleftrightarrow>
     (\<exists>response. network k = Inr response \<and> resp_ok response
        \<and> resp_json response = Inr data \<and> validateData data cacheKey = Inr ()))
   \<and> fetchWithRetry new_DataManager errorHandler network url cacheKey =
     (case attempt_once network cacheKey 1 of
        Inr d \<Rightarrow> (Inr d, [Fetch url False])
      | Inl e1 \<Rightarrow>
     (case attempt_once network cacheKey 2 of
        Inr d \<Rightarrow> (Inr d, [Fetch url False, Delay 1000, Fetch url True])
      | Inl e2 \<Rightarrow>
     (case attempt_once network cacheKey 3 of
        Inr d \<Rightarrow> (Inr d, [Fetch url False, Delay 1000, Fetch url True, Delay 2000, Fetch url True])
      | Inl e3 \<Rightarrow>
          (Inl (Err ''Error'' (''Failed to load '' @ url @ '' after 3 attempts: '' @ err_message e3)),
           [Fetch url False, Delay 1000, Fetch url True, Delay 2000, Fetch url True]
           @ (if errorHandler then [HandleNetworkError (Some e3) url] else [])))))"
proof -
  have n: "show_nat 3 = ''3''" by (simp add: show_nat.simps digit_char_def)
  have dm: "retryAttempts new_DataManager = 3" "retryDelay new_DataManager = 1000"
    "baseUrl new_DataManager = []"
    by (simp_all add: new_DataManager_def)
  have s2: "Suc (Suc 0) = 2" by simp
  have l4: "retry_loop new_DataManager network url cacheKey 4 le = (Inl le, [])" for le
    by (subst retry_loop.simps) (simp add: dm)
  have l3: "retry_loop new_DataManager network url cacheKey 3 le =
     (case attempt_once network cacheKey 3 of
        Inr d \<Rightarrow> (Inr d, [Fetch url True])
      | Inl e \<Rightarrow> (Inl (Some e), [Fetch url True]))" for le
    by (subst retry_loop.simps) (simp add: l4 dm split: sum.splits)
  have l2: "retry_loop new_DataManager network url cacheKey 2 le =
     (case attempt_once network cacheKey 2 of
        Inr d \<Rightarrow> (Inr d, [Fetch url True])
      | Inl e \<Rightarrow>
          (case retry_loop new_DataManager network url cacheKey 3 (Some e) of
             (r, effects) \<Rightarrow> (r, [Fetch url True, Delay 2000] @ effects)))" for le
    by (subst retry_loop.simps) (simp add: dm s2 split: sum.splits)
  have l1: "retry_loop new_DataManager network url cacheKey 1 le =
     (case attempt_once network cacheKey 1 of
        Inr d \<Rightarrow> (Inr d, [Fetch url False])
      | Inl e \<Rightarrow>
          (case retry_loop new_DataManager network url cacheKey 2 (Some e) of
             (r, effects) \<Rightarrow> (r, [Fetch url False, Delay 1000] @ effects)))" for le
    by (subst retry_loop.simps) (simp add: dm s2 split: sum.splits)
  have loop: "fetchWithRetry new_DataManager errorHandler network url cacheKey =
     (case attempt_once network cacheKey 1 of
        Inr d \<Rightarrow> (Inr d, [Fetch url False])
      | Inl e1 \<Rightarrow>
     (case attempt_once network cacheKey 2 of
        Inr d \<Rightarrow> (Inr d, [Fetch url False, Delay 1000, Fetch url True])
      | Inl e2 \<Rightarrow>
     (case attempt_once network cacheKey 3 of
        Inr d \<Rightarrow> (Inr d, [Fetch url False, Delay 1000, Fetch url True, Delay 2000, Fetch url True])
      | Inl e3 \<Rightarrow>
          (Inl (Err ''Error'' (''Failed to load '' @ url @ '' after 3 attempts: '' @ err_message e3)),
           [Fetch url False, Delay 1000, Fetch url True, Delay 2000, Fetch url True]
           @ (if errorHandler then [HandleNetworkError (Some e3) url] else [])))))"
    unfolding fetchWithRetry_def l1 l2 l3
    by (simp add: n dm split: sum.splits)
  show ?thesis
    using loop attempt_once_ok [of network cacheKey k data] by blast
qed


theorem C3_fetchWithRetry_witness:
  "fetchWithRetry new_DataManager True flaky ''data/subjects.json'' ''subjects''
     = (Inr subjects_json,
        [Fetch ''data/subjects.json'' False, Delay 1000, Fetch ''data/subjects.json'' True,
         Delay 2000, Fetch ''data/subjects.json'' True])
   \<and> fetchWithRetry new_DataManager True offline ''data/subjects.json'' ''subjects''
     = (Inl (Err ''Error'' ''Failed to load data/subjects.json after 3 attempts: Failed to fetch''),
        [Fetch ''data/subjects.json'' False, Delay 1000, Fetch ''data/subjects.json'' True,
         Delay 2000, Fetch ''data/subjects.json'' True,
         HandleNetworkError (Some (Err ''TypeError'' ''Failed to fetch'')) ''data/subjects.json''])"
proof -
  have a: "attempt_once flaky ''subjects'' (Suc 0) = Inl (Err ''Error'' ''HTTP 500: Internal Server Error'')"
    "attempt_once flaky ''subjects'' 2 = Inl (Err ''Error'' ''HTTP 500: Internal Server Error'')"
    "attempt_once flaky ''subjects'' 3 = Inr subjects_json"
    by (simp_all add: attempt_once_def flaky_def validateData_def subjects_json_def
        show_nat.simps digit_char_def)
  have b: "attempt_once offline ''subjects'' k = Inl (Err ''TypeError'' ''Failed to fetch'')" for k
    by (simp add: attempt_once_def offline_def)
  show ?thesis
    using C3_fetchWithRetry [of flaky "''subjects''" 1 subjects_json True "''data/subjects.json''"]
      C3_fetchWithRetry [of offline "''subjects''" 1 subjects_json True "''data/subjects.json''"]
    by (simp add: a b)
qed

section \<open>Content filter: theorems\<close>

lemma filter_e_total:
  "\<forall>x\<in>set xs. p x = Inr (q x) \<Longrightarrow> filter_e p xs = Inr (filter q xs)"
  by (induction xs) auto

lemma field_equals_wf:
  "\<not> nullish sim \<Longrightarrow> field_equals name v sim = Inr (js_get sim name = JStr v)"
  by (simp add: field_equals_def get_prop_def)

lemma is_arr_elements: "is_arr v \<Longrightarrow> \<exists>xs. v = JArr xs"
  by (cases v) auto

lemma is_str_str_of: "is_str v \<Longrightarrow> v = JStr (str_of v)"
  by (cases v) auto

lemma tags_match_wf:
  assumes "is_arr (js_get sim ''tags'')" "ts \<noteq> []"
  shows "tags_match ts sim = Inr (\<exists>tag\<in>set ts. JStr tag \<in> set (elements (js_get sim ''tags'')))"
proof -
  obtain xs where xs: "js_get sim ''tags'' = JArr xs"
    using assms(1) is_arr_elements by auto
  then have "\<not> nullish sim" by (cases sim) (auto simp: nullish_def)
  then show ?thesis
    using assms(2) xs by (simp add: tags_match_def get_prop_def list_ex_iff)
qed

lemma some_field_strs:
  "list_all is_str flds \<Longrightarrow>
   some_field lower kw flds = Inr (\<exists>s\<in>set (map str_of flds). str_includes (lower s) kw)"
proof (induction flds)
  case Nil
  then show ?case by simp
next
  case (Cons v flds)
  then obtain s where "v = JStr s" by (cases v) auto
  with Cons show ?case by auto
qed

lemma vocabulary_fields_wf:
  "list_all is_vocab vs \<Longrightarrow>
   \<exists>fs. vocabulary_fields vs = Inr fs \<and> list_all is_str fs
      \<and> map str_of fs = concat (map (\<lambda>v. [str_of (js_get v ''term''), str_of (js_get v ''definition'')]) vs)"
  by (induction vs) (auto simp: is_vocab_def)

lemma spread_str_array: "is_str_array v \<Longrightarrow> spread v = Inr (elements v)"
  by (cases v) (auto simp: is_str_array_def)

lemma falsy_str_of: "\<not> truthy v \<Longrightarrow> str_of v = []"
  by (cases v) auto

lemma falsy_elements: "\<not> truthy v \<Longrightarrow> elements v = []"
  by (cases v) auto

lemma searchFields_wf:
  assumes "searchable sim"
  shows "\<exists>flds. searchFields sim = Inr flds \<and> list_all is_str flds
           \<and> map str_of flds = search_strings sim"
proof -
  let ?instr = "if truthy (js_get sim ''instructions'') then js_get sim ''instructions'' else JStr []"
  let ?base = "[js_get sim ''title'', js_get sim ''description'']
                 @ elements (js_get sim ''topics'') @ elements (js_get sim ''learningObjectives'')
                 @ [?instr]"
  have "is_str (js_get sim ''title'')" using assms by (simp add: searchable_def)
  then have nn: "\<not> nullish sim" by (cases sim) (auto simp: nullish_def)
  have sp: "spread (js_get sim ''topics'') = Inr (elements (js_get sim ''topics''))"
    "spread (js_get sim ''learningObjectives'') = Inr (elements (js_get sim ''learningObjectives''))"
    using assms by (simp_all add: searchable_def spread_str_array)
  have instr: "is_str ?instr" "str_of ?instr = str_of (js_get sim ''instructions'')"
    using assms by (auto simp: searchable_def falsy_str_of)
  have base: "list_all is_str ?base"
    using assms instr(1) by (simp add: searchable_def is_str_array_def)
  have base_s: "map str_of ?base =
      [str_of (js_get sim ''title''), str_of (js_get sim ''description'')]
      @ map str_of (elements (js_get sim ''topics''))
      @ map str_of (elements (js_get sim ''learningObjectives''))
      @ [str_of (js_get sim ''instructions'')]"
    using instr(2) by simp
  show ?thesis
  proof (cases "truthy (js_get sim ''vocabulary'')")
    case False
    then have "searchFields sim = Inr ?base"
      using nn sp by (simp add: searchFields_def Let_def)
    then show ?thesis
      using base base_s falsy_elements [OF False] by (simp add: search_strings_def)
  next
    case True
    then obtain vs where arr: "js_get sim ''vocabulary'' = JArr vs"
      using assms is_arr_elements by (auto simp: searchable_def)
    have voc: "list_all is_vocab (elements (js_get sim ''vocabulary''))"
      using assms True by (simp add: searchable_def)
    obtain fs where fs: "vocabulary_fields (elements (js_get sim ''vocabulary'')) = Inr fs"
      "list_all is_str fs"
      "map str_of fs = concat (map (\<lambda>v. [str_of (js_get v ''term''), str_of (js_get v ''definition'')])
          (elements (js_get sim ''vocabulary'')))"
      using vocabulary_fields_wf [OF voc] by blast
    have "searchFields sim = Inr (?base @ fs)"
      using nn sp True fs(1) arr by (simp add: searchFields_def Let_def)
    then show ?thesis
      using base base_s fs(2,3) by (simp add: search_strings_def)
  qed
qed

lemma matchesKeyword_wf:
  assumes "searchable sim"
  shows "matchesKeyword lower sim kw = Inr (\<exists>s\<in>set (search_strings sim). str_includes (lower s) kw)"
proof -
  obtain flds where f: "searchFields sim = Inr flds" "list_all is_str flds"
    "map str_of flds = search_strings sim"
    using searchFields_wf [OF assms] by blast
  show ?thesis
    using some_field_strs [OF f(2), of lower kw] f(1,3) by (simp add: matchesKeyword_def)
qed

lemma stage_subject:
  assumes "item_truthy v \<longrightarrow> (\<forall>sim\<in>set xs. \<not> nullish sim)"
  shows "(if item_truthy v then filter_e (field_equals name (the v)) xs else Inr xs)
       = Inr (filter (\<lambda>sim. item_truthy v \<longrightarrow> js_get sim name = JStr (the v)) xs)"
proof (cases "item_truthy v")
  case True
  have "\<forall>sim\<in>set xs. field_equals name (the v) sim = Inr (js_get sim name = JStr (the v))"
    using assms True by (simp add: field_equals_wf)
  then show ?thesis using True by (simp add: filter_e_total)
next
  case False
  then show ?thesis by simp
qed

lemma stage_tags:
  assumes "ts \<noteq> [] \<longrightarrow> (\<forall>sim\<in>set xs. is_arr (js_get sim ''tags''))"
  shows "(if length ts > 0 then filter_e (tags_match ts) xs else Inr xs)
       = Inr (filter (\<lambda>sim. ts \<noteq> [] \<longrightarrow> (\<exists>tag\<in>set ts. JStr tag \<in> set (elements (js_get sim ''tags'')))) xs)"
proof (cases "ts = []")
  case False
  have "\<forall>sim\<in>set xs. tags_match ts sim
          = Inr (\<exists>tag\<in>set ts. JStr tag \<in> set (elements (js_get sim ''tags'')))"
    using assms False by (simp add: tags_match_wf)
  then show ?thesis using False by (simp add: filter_e_total)
next
  case True
  then show ?thesis by simp
qed

lemma stage_keyword:
  assumes "kw \<noteq> [] \<longrightarrow> (\<forall>sim\<in>set xs. searchable sim)"
  shows "(if kw \<noteq> [] then filter_e (\<lambda>sim. matchesKeyword lower sim (lower kw)) xs else Inr xs)
       = Inr (filter (\<lambda>sim. kw \<noteq> [] \<longrightarrow> (\<exists>s\<in>set (search_strings sim). str_includes (lower s) (lower kw))) xs)"
proof (cases "kw = []")
  case False
  have "\<forall>sim\<in>set xs. matchesKeyword lower sim (lower kw)
          = Inr (\<exists>s\<in>set (search_strings sim). str_includes (lower s) (lower kw))"
    using assms False by (simp add: matchesKeyword_wf)
  then show ?thesis using False by (simp add: filter_e_total)
next
  case True
  then show ?thesis by simp
qed

text \<open>
  C1, as stated, fails: with the subject filter set to the empty string, which is not
  \<open>null\<close>, \<open>applyFilters\<close> returns a simulation whose subject is not the empty string.
  The filters are guarded by truthiness, and the empty string counts as no filter.
\<close>

theorem C1_empty_subject_not_applied:
  "subject empty_subject \<noteq> None
   \<and> applyFilters ascii_lower empty_subject [forces] = Inr [forces]
   \<and> js_get forces ''subject'' \<noteq> JStr (the (subject empty_subject))"
  by (simp add: applyFilters_def empty_subject_def no_filters_def forces_def)

text \<open>
  C1, amended. For every list of simulations and every filter state, \<open>applyFilters\<close>
  returns exactly the members of \<open>allSimulations\<close> that satisfy every active predicate,
  in their original order. A subject, grade level or difficulty filter is active when it
  is neither \<open>null\<close> nor the empty string, and then requires strict equality of the
  simulation's field; the tag filter is active when there is at least one tag, and
  requires a tag of the filter among the simulation's tags; the keyword filter is active
  when the keyword is non-empty, and requires the lower-cased keyword inside one of the
  lower-cased search strings. What is asked of the simulations is only what the active
  predicates read: with a subject, grade level or difficulty filter active no simulation
  is \<open>null\<close> or \<open>undefined\<close>; with the tag filter active the simulations that pass
  these three filters have an array as \<open>tags\<close>; with the keyword filter active the
  simulations that pass the tag filter as well are \<open>searchable\<close>. With no filter active
  nothing is asked.
\<close>

theorem C1_applyFilters:
  assumes "item_truthy (subject currentFilters) \<or> item_truthy (gradeLevel currentFilters)
             \<or> item_truthy (difficulty currentFilters)
           \<longrightarrow> (\<forall>sim\<in>set allSimulations. \<not> nullish sim)"
    and "tags currentFilters \<noteq> []
           \<longrightarrow> (\<forall>sim\<in>set allSimulations. passes_fields currentFilters sim
                  \<longrightarrow> is_arr (js_get sim ''tags''))"
    and "keyword currentFilters \<noteq> []
           \<longrightarrow> (\<forall>sim\<in>set allSimulations.
                  passes_fields currentFilters sim \<and> passes_tags currentFilters sim
                  \<longrightarrow> searchable sim)"
  shows "applyFilters lower currentFilters allSimulations
           = Inr (filter (passes lower currentFilters) allSimulations)"
proof -
  let ?r1 = "filter (\<lambda>sim. item_truthy (subject currentFilters) \<longrightarrow>
                js_get sim ''subject'' = JStr (the (subject currentFilters))) allSimulations"
  let ?r2 = "filter (\<lambda>sim. item_truthy (gradeLevel currentFilters) \<longrightarrow>
                js_get sim ''gradeLevel'' = JStr (the (gradeLevel currentFilters))) ?r1"
  let ?r3 = "filter (\<lambda>sim. item_truthy (difficulty currentFilters) \<longrightarrow>
                js_get sim ''difficulty'' = JStr (the (difficulty currentFilters))) ?r2"
  let ?r4 = "filter (\<lambda>sim. tags currentFilters \<noteq> [] \<longrightarrow>
                (\<exists>tag\<in>set (tags currentFilters). JStr tag \<in> set (elements (js_get sim ''tags'')))) ?r3"
  let ?r5 = "filter (\<lambda>sim. keyword currentFilters \<noteq> [] \<longrightarrow>
                (\<exists>s\<in>set (search_strings sim). str_includes (lower s) (lower (keyword currentFilters)))) ?r4"
  have w0: "item_truthy (subject currentFilters) \<longrightarrow> (\<forall>sim\<in>set allSimulations. \<not> nullish sim)"
    using assms(1) by simp
  have w1: "item_truthy (gradeLevel currentFilters) \<longrightarrow> (\<forall>sim\<in>set ?r1. \<not> nullish sim)"
    using assms(1) by simp
  have w2: "item_truthy (difficulty currentFilters) \<longrightarrow> (\<forall>sim\<in>set ?r2. \<not> nullish sim)"
    using assms(1) by simp
  have w3: "tags currentFilters \<noteq> [] \<longrightarrow> (\<forall>sim\<in>set ?r3. is_arr (js_get sim ''tags''))"
    using assms(2) by (simp add: passes_fields_def)
  have w4: "keyword currentFilters \<noteq> [] \<longrightarrow> (\<forall>sim\<in>set ?r4. searchable sim)"
    using assms(3) by (simp add: passes_fields_def passes_tags_def)
  have "applyFilters lower currentFilters allSimulations = Inr ?r5"
    unfolding applyFilters_def
    by (simp only: stage_subject [OF w0] stage_subject [OF w1] stage_subject [OF w2]
        stage_tags [OF w3] stage_keyword [OF w4] sum.case)
  moreover have "?r5 = filter (passes lower currentFilters) allSimulations"
    unfolding filter_filter passes_def by (rule filter_cong) auto
  ultimately show ?thesis by simp
qed

theorem C1_applyFilters_witness:
  "applyFilters ascii_lower physics_only [forces, pendulum_data, acids] = Inr [forces, pendulum_data]
   \<and> applyFilters ascii_lower chemistry_ph [forces, untagged, acids] = Inr [acids]
   \<and> applyFilters ascii_lower physics_force [forces, untagged, acids] = Inr [forces]"
proof -
  have 1: "applyFilters ascii_lower physics_only [forces, pendulum_data, acids]
      = Inr (filter (passes ascii_lower physics_only) [forces, pendulum_data, acids])"
    by (rule C1_applyFilters)
      (simp_all add: physics_only_def no_filters_def forces_def pendulum_data_def acids_def nullish_def)
  have 2: "applyFilters ascii_lower chemistry_ph [forces, untagged, acids]
      = Inr (filter (passes ascii_lower chemistry_ph) [forces, untagged, acids])"
    by (rule C1_applyFilters)
      (simp_all add: chemistry_ph_def no_filters_def forces_def untagged_def acids_def nullish_def
        passes_fields_def)
  have 3: "applyFilters ascii_lower physics_force [forces, untagged, acids]
      = Inr (filter (passes ascii_lower physics_force) [forces, untagged, acids])"
    by (rule C1_applyFilters)
      (simp_all add: physics_force_def no_filters_def forces_def untagged_def acids_def nullish_def
        passes_fields_def passes_tags_def searchable_def is_str_array_def)
  have p: "passes ascii_lower physics_only forces" "passes ascii_lower physics_only pendulum_data"
    "\<not> passes ascii_lower physics_only acids"
    "\<not> passes ascii_lower chemistry_ph forces" "\<not> passes ascii_lower chemistry_ph untagged"
    "passes ascii_lower chemistry_ph acids"
    "passes ascii_lower physics_force forces" "\<not> passes ascii_lower physics_force untagged"
    "\<not> passes ascii_lower physics_force acids"
    by (simp_all add: passes_def physics_only_def chemistry_ph_def physics_force_def no_filters_def
        forces_def pendulum_data_def untagged_def acids_def search_strings_def ascii_lower_def)
  show ?thesis
    using 1 2 3 p by simp
qed

text \<open>
  Where a hypothesis fails the predicate that is active throws and \<open>applyFilters\<close>
  rejects. A custom simulation with the fields that \<open>validateSimulationData\<close> requires
  has no \<open>tags\<close> and no \<open>topics\<close>: it passes the subject filter, the tag predicate
  throws on it, and so does the keyword predicate. The subject predicate throws on
  \<open>null\<close>.
\<close>

lemma applyFilters_without_tags:
  "validateSimulationData parse_url_table pendulum_data = Inr (Validation True ''Validation passed'')
   \<and> applyFilters ascii_lower (no_filters\<lparr>tags := [''motion'']\<rparr>) [pendulum_data]
       = Inl (Err ''TypeError'' ''sim.tags.includes is not a function'')"
  by (simp add: applyFilters_def no_filters_def tags_match_def get_prop_def nullish_def
      pendulum_data_def validateSimulationData_def parse_url_table_def)

lemma applyFilters_without_topics:
  "applyFilters ascii_lower (no_filters\<lparr>keyword := ''lab''\<rparr>) [pendulum_data]
     = Inl (Err ''TypeError'' ''value is not iterable'')"
  by (simp add: applyFilters_def no_filters_def matchesKeyword_def searchFields_def nullish_def
      pendulum_data_def)

lemma applyFilters_null:
  "applyFilters lower physics_only [JNull]
     = Inl (Err ''TypeError'' ''Cannot read properties of null or undefined (reading subject)'')"
  by (simp add: applyFilters_def physics_only_def no_filters_def field_equals_def get_prop_def
      nullish_def)

section \<open>Simulation manager: theorems\<close>

lemma map_of_alist_set: "map_of (alist_set k v ps) = (map_of ps)(k \<mapsto> v)"
  by (induction ps) (auto simp: fun_eq_iff)

lemma keys_alist_set: "fst ` set (alist_set k v ps) = insert k (fst ` set ps)"
  by (induction ps) (force split: if_splits)+

lemma distinct_alist_set: "distinct (map fst ps) \<Longrightarrow> distinct (map fst (alist_set k v ps))"
proof (induction ps)
  case Nil
  then show ?case by simp
next
  case (Cons p ps)
  then show ?case
    using keys_alist_set [of k v ps] by (cases p) (auto simp: image_iff)
qed

lemma map_of_foldl_set:
  "distinct (map fst ps) \<Longrightarrow>
   map_of (foldl (\<lambda>acc p. alist_set (fst p) (snd p) acc) acc ps) k
     = (case map_of ps k of Some v \<Rightarrow> Some v | None \<Rightarrow> map_of acc k)"
proof (induction ps arbitrary: acc)
  case Nil
  then show ?case by simp
next
  case (Cons p ps)
  have "fst p \<notin> fst ` set ps" using Cons.prems by auto
  then have none: "map_of ps (fst p) = None" by (simp add: map_of_eq_None_iff)
  show ?case
    using Cons.IH [of "alist_set (fst p) (snd p) acc"] Cons.prems none
    by (cases p) (auto simp: map_of_alist_set split: option.splits)
qed

lemma distinct_foldl_set:
  "distinct (map fst acc) \<Longrightarrow>
   distinct (map fst (foldl (\<lambda>acc p. alist_set (fst p) (snd p) acc) acc ps))"
  by (induction ps arbitrary: acc) (simp_all add: distinct_alist_set)

lemma to_json_undefined: "to_json v = JUndefined \<longleftrightarrow> v = JUndefined"
  by (cases v) auto

lemma map_of_to_json:
  "distinct (map fst ps) \<Longrightarrow>
   map_of (map (\<lambda>p. (fst p, to_json (snd p))) (filter (\<lambda>p. snd p \<noteq> JUndefined) ps)) k
     = (case map_of ps k of
          None \<Rightarrow> None
        | Some v \<Rightarrow> if v = JUndefined then None else Some (to_json v))"
proof (induction ps)
  case Nil
  then show ?case by simp
next
  case (Cons p ps)
  have "fst p \<notin> fst ` set ps" using Cons.prems by auto
  then have none: "map_of ps (fst p) = None" by (simp add: map_of_eq_None_iff)
  show ?case using Cons none by (cases p) auto
qed

lemma js_get_to_json:
  "distinct (map fst ps) \<Longrightarrow> js_get (to_json (JObj ps)) k = to_json (js_get (JObj ps) k)"
  by (simp add: map_of_to_json split: option.splits)

lemma js_get_literal:
  assumes "distinct (map fst ps)"
  shows "js_get (object_literal ([(''id'', g)] @ ps @ bookkeeping now)) k =
     (case map_of (bookkeeping now) k of
        Some v \<Rightarrow> v
      | None \<Rightarrow>
          (case map_of ps k of
             Some v \<Rightarrow> v
           | None \<Rightarrow> if k = ''id'' then g else JUndefined))"
proof -
  have b: "distinct (map fst (bookkeeping now))" by (simp add: bookkeeping_def)
  show ?thesis
    unfolding object_literal_def foldl_append
    by (simp add: map_of_foldl_set [OF b] map_of_foldl_set [OF assms] split: option.splits)
qed

lemma distinct_literal: "distinct (map fst (own_properties (object_literal ps)))"
  by (simp add: object_literal_def distinct_foldl_set)

text \<open>
  C8. The record that \<open>addSimulation\<close> builds and persists for accepted data, property by
  property. \<open>isCustom\<close>, \<open>addedDate\<close>, \<open>lastModified\<close> and \<open>accessCount\<close> are set by
  the system; every other property of the input has the input's value, and what is
  stored is that value as JSON; no further property exists but \<open>id\<close>. The generated id
  \<open>custom-N\<close> is the record's \<open>id\<close> only when the input has no \<open>id\<close> property: a
  supplied \<open>id\<close> is not replaced, because the literal writes the generated id before the
  spread of the input. This is where the code departs from the claim.
\<close>

theorem C8_addSimulation:
  assumes "validateSimulationData parse_url (JObj ps) = Inr v" and "isValid v"
    and "distinct (map fst ps)"
  shows "\<exists>simulation m'.
     addSimulation parse_url True now (JObj ps) m = (Inr simulation, m')
     \<and> customSimulations m' = customSimulations m @ [simulation]
     \<and> persisted_simulations m' \<noteq> []
     \<and> last (persisted_simulations m') = to_json simulation
     \<and> (\<forall>k. js_get (to_json simulation) k = to_json (js_get simulation k))
     \<and> (\<forall>k. js_get simulation k =
          (if k = ''isCustom'' then JBool True
           else if k = ''addedDate'' \<or> k = ''lastModified'' then JStr now
           else if k = ''accessCount'' then JNum 0
           else if k \<in> fst ` set ps then js_get (JObj ps) k
           else if k = ''id'' then JStr (''custom-'' @ show_nat (nextId m))
           else JUndefined))"
proof -
  let ?g = "JStr (''custom-'' @ show_nat (nextId m))"
  let ?sim = "object_literal ([(''id'', ?g)] @ ps @ bookkeeping now)"
  let ?m1 = "m\<lparr>nextId := nextId m + 1, customSimulations := customSimulations m @ [?sim]\<rparr>"
  let ?data = "object_literal [(''simulations'', JArr (customSimulations ?m1)),
                    (''nextId'', JNum (int (nextId ?m1))), (''lastSaved'', JStr now)]"
  let ?m' = "?m1\<lparr>stored_data := Some (to_json ?data)\<rparr>"
  have run: "addSimulation parse_url True now (JObj ps) m = (Inr ?sim, ?m')"
    using assms(1,2) by (simp add: addSimulation_def saveToStorage_def bookkeeping_def Let_def)
  obtain qs where qs: "?sim = JObj qs" "distinct (map fst qs)"
    using distinct_literal [of "[(''id'', ?g)] @ ps @ bookkeeping now"]
    by (simp add: object_literal_def)
  have sim_ne: "?sim \<noteq> JUndefined" by (simp add: object_literal_def)
  have pers: "persisted_simulations ?m'
      = map (\<lambda>x. if x = JUndefined then JNull else to_json x) (customSimulations m @ [?sim])"
    by (simp add: persisted_simulations_def object_literal_def)
  have p1: "persisted_simulations ?m' \<noteq> []" and p2: "last (persisted_simulations ?m') = to_json ?sim"
    using sim_ne unfolding pers by simp_all
  have j: "\<forall>k. js_get (to_json ?sim) k = to_json (js_get ?sim k)"
    using js_get_to_json [OF qs(2)] unfolding qs(1) by blast
  have f: "\<forall>k. js_get ?sim k =
          (if k = ''isCustom'' then JBool True
           else if k = ''addedDate'' \<or> k = ''lastModified'' then JStr now
           else if k = ''accessCount'' then JNum 0
           else if k \<in> fst ` set ps then js_get (JObj ps) k
           else if k = ''id'' then ?g
           else JUndefined)"
  proof
    fix k
    have "k \<notin> fst ` set ps \<Longrightarrow> map_of ps k = None" by (simp add: map_of_eq_None_iff)
    moreover have "k \<in> fst ` set ps \<Longrightarrow> \<exists>v. map_of ps k = Some v"
      by (cases "map_of ps k") (simp_all add: map_of_eq_None_iff)
    ultimately show "js_get ?sim k =
          (if k = ''isCustom'' then JBool True
           else if k = ''addedDate'' \<or> k = ''lastModified'' then JStr now
           else if k = ''accessCount'' then JNum 0
           else if k \<in> fst ` set ps then js_get (JObj ps) k
           else if k = ''id'' then ?g
           else JUndefined)"
      unfolding js_get_literal [OF assms(3)]
      by (cases "k \<in> fst ` set ps") (auto simp: bookkeeping_def)
  qed
  show ?thesis
    using run p1 p2 j f by (intro exI [of _ ?sim] exI [of _ ?m']) simp
qed

text \<open>
  The import path passes \<open>id: undefined\<close> so that the system assigns the id. The
  spread copies that property too: the simulation returned has the id \<open>undefined\<close> and
  the stored record has no \<open>id\<close> at all.
\<close>

lemma import_one_pendulum:
  "\<exists>simulation m'.
     import_one parse_url_table True ''2026-01-01T00:00:00.000Z'' pendulum_with_id new_manager
       = (Inr simulation, m')
     \<and> js_get simulation ''id'' = JUndefined
     \<and> js_get (last (persisted_simulations m')) ''id'' = JUndefined
     \<and> ''id'' \<notin> fst ` set (own_properties (last (persisted_simulations m')))"
  by (simp add: import_one_def addSimulation_def validateSimulationData_def saveToStorage_def
      object_literal_def pendulum_with_id_def pendulum_data_def new_manager_def parse_url_table_def
      persisted_simulations_def nullish_def Let_def)

theorem C8_addSimulation_witness:
  "\<exists>simulation m'.
     addSimulation parse_url_table True ''2026-01-01T00:00:00.000Z'' pendulum_with_id new_manager
       = (Inr simulation, m')
     \<and> js_get pendulum_with_id ''id'' = JStr ''pendulum-lab''
     \<and> js_get simulation ''id'' = JStr ''pendulum-lab''
     \<and> js_get (last (persisted_simulations m')) ''id'' = JStr ''pendulum-lab''
     \<and> js_get (last (persisted_simulations m')) ''title'' = JStr ''Pendulum Lab''
     \<and> js_get (last (persisted_simulations m')) ''isCustom'' = JBool True
     \<and> nextId new_manager = 1"
proof -
  let ?ps = "own_properties pendulum_data @ [(''id'', JStr ''pendulum-lab'')]"
  have v: "validateSimulationData parse_url_table (JObj ?ps) = Inr (Validation True ''Validation passed'')"
    by (simp add: validateSimulationData_def pendulum_data_def parse_url_table_def nullish_def)
  have d: "distinct (map fst ?ps)" by (simp add: pendulum_data_def)
  obtain simulation m' where r:
    "addSimulation parse_url_table True ''2026-01-01T00:00:00.000Z'' (JObj ?ps) new_manager
       = (Inr simulation, m')"
    "last (persisted_simulations m') = to_json simulation"
    "\<forall>k. js_get (to_json simulation) k = to_json (js_get simulation k)"
    "\<forall>k. js_get simulation k =
          (if k = ''isCustom'' then JBool True
           else if k = ''addedDate'' \<or> k = ''lastModified'' then JStr ''2026-01-01T00:00:00.000Z''
           else if k = ''accessCount'' then JNum 0
           else if k \<in> fst ` set ?ps then js_get (JObj ?ps) k
           else if k = ''id'' then JStr (''custom-'' @ show_nat (nextId new_manager))
           else JUndefined)"
    using C8_addSimulation [OF v _ d, of "''2026-01-01T00:00:00.000Z''" new_manager] by auto
  have "js_get simulation ''id'' = JStr ''pendulum-lab''"
    "js_get simulation ''title'' = JStr ''Pendulum Lab''"
    "js_get simulation ''isCustom'' = JBool True"
    using r(4) by (simp_all add: pendulum_data_def)
  then show ?thesis
    using r(1,2,3) by (simp add: pendulum_with_id_def new_manager_def pendulum_data_def)
qed

section \<open>Completion tracker: theorems\<close>

text \<open>The stored texts are the JSON texts of the values they are parsed to.\<close>

lemma tracker_texts:
  "json_text old_data = old_raw \<and> json_text inflated_data = inflated_raw
   \<and> json_text exported_data = exported_raw"
  by (simp add: old_data_def old_raw_def inflated_data_def inflated_raw_def exported_data_def
      exported_raw_def json_quote_def show_int_def show_nat.simps digit_char_def)

lemma js_get_assign:
  "js_get (assign (JObj ps) k v) k' = (if k' = k then v else js_get (JObj ps) k')"
  by (simp add: map_of_alist_set)






text \<open>
  \<open>typeof v\<close> is \<open>object\<close> for \<open>null\<close>, for arrays and for objects.
\<close>

lemma typeof_object:
  "typeof v = ''object'' \<longleftrightarrow> v = JNull \<or> (\<exists>xs. v = JArr xs) \<or> (\<exists>ps. v = JObj ps)"
  by (cases v) auto




lemma js_get_defined: "js_get d k \<noteq> JUndefined \<Longrightarrow> \<exists>ps. d = JObj ps"
  by (cases d) auto


lemma assign_same: "map_of ps k = Some v \<Longrightarrow> alist_set k v ps = ps"
  by (induction ps) (auto split: if_splits)




lemma save_small:
  "0 < frames \<Longrightarrow>
   length (json_stringify env (completionData t)) \<le> maxStorageSize \<Longrightarrow>
   set_item env (json_stringify env (completionData t)) = None \<Longrightarrow>
   saveCompletionData frames env t
     = (Inr True, t\<lparr>storage_item := Some (json_stringify env (completionData t))\<rparr>)"
  by (cases frames) (simp_all add: Let_def)





text \<open>
  Where a hypothesis fails \<open>cleanupOldData\<close> throws: when \<open>accessed\<close> is \<open>null\<close>,
  when \<open>completed\<close> is \<open>null\<close>, and when there are 1001 completion records of which
  one is \<open>null\<close> (the comparator of the sort throws, and nothing is removed).
\<close>

lemma cleanupOldData_null_accessed:
  assumes "js_get (completionData t) ''accessed'' = JNull"
  shows "cleanupOldData env t = (Some (Err ''TypeError'' ''Cannot convert undefined or null to object''), t)"
  using assms by (simp add: cleanupOldData_def remove_old_access_def object_entries_def nullish_def)

lemma cleanupOldData_null_completed:
  assumes "js_get (completionData t) ''accessed'' = JObj []"
    and "js_get (completionData t) ''completed'' = JNull"
  shows "cleanupOldData env t = (Some (Err ''TypeError'' ''Cannot convert undefined or null to object''), t)"
  using assms
  by (simp add: cleanupOldData_def remove_old_access_def trim_completed_def object_entries_def
      nullish_def)

lemma trim_completed_null_record:
  assumes "js_get (completionData t) ''completed'' = JObj (many_records 1000 @ [(''x'', JNull)])"
  shows "trim_completed env t = (Some (Err ''TypeError'' ''Cannot read properties of null''), t)"
  using assms by (simp add: trim_completed_def object_entries_def nullish_def many_records_def)

subsection \<open>The count of completions\<close>

lemma inv_object: "count_invariant d \<Longrightarrow> \<exists>ps. d = JObj ps"
  using js_get_defined [of d "''completed''"] by (auto simp: count_invariant_def nullish_def)

lemma inv_assign_other:
  "count_invariant d \<Longrightarrow> k \<noteq> ''completed'' \<Longrightarrow> k \<noteq> ''totalCompleted'' \<Longrightarrow>
   count_invariant (assign d k v)"
  using inv_object [of d] by (auto simp: count_invariant_def map_of_alist_set)

lemma inv_recount:
  assumes "d = JObj ps" "\<not> nullish (js_get d ''completed'')"
  shows "count_invariant (assign d ''totalCompleted'' (key_count (js_get d ''completed'')))"
  using assms by (simp add: count_invariant_def map_of_alist_set)

lemma assign_object: "d = JObj ps \<Longrightarrow> \<exists>qs. assign d k v = JObj qs"
  by simp

lemma remove_access_inv:
  assumes "count_invariant (completionData t)"
  shows "count_invariant (completionData (snd (remove_old_access env t)))"
  using assms
  by (auto simp: remove_old_access_def Let_def inv_assign_other split: sum.splits prod.splits)

lemma trim_inv:
  assumes "count_invariant (completionData t)"
  shows "count_invariant (completionData (snd (trim_completed env t)))"
proof -
  obtain ps where d: "completionData t = JObj ps" using inv_object [OF assms] by blast
  have trimmed: "count_invariant
      (assign (assign (assign (JObj ps) ''completed'' (JObj es)) ''totalCompleted''
         (JNum (int (length es)))) ''lastUpdated'' v)" for es v
    by (simp add: count_invariant_def map_of_alist_set nullish_def key_count_def)
  have touched: "count_invariant (assign (completionData t) ''lastUpdated'' v)" for v
    using assms by (simp add: inv_assign_other)
  show ?thesis
  proof (cases "object_entries (js_get (completionData t) ''completed'')")
    case (Inl e)
    then show ?thesis using assms by (simp add: trim_completed_def)
  next
    case (Inr es)
    show ?thesis
    proof (cases "length es > 1000 \<and> \<not> list_ex (\<lambda>p. nullish (snd p)) es")
      case True
      then have "completionData (snd (trim_completed env t))
         = assign (assign (assign (JObj ps) ''completed'' (JObj (take 500 (most_recent_first (to_num env) es))))
             ''totalCompleted'' (JNum (int (length (take 500 (most_recent_first (to_num env) es))))))
             ''lastUpdated'' (JNum (clock env))"
        using True Inr d by (simp add: trim_completed_def Let_def)
      then show ?thesis by (simp only: trimmed)
    next
      case False
      then have "completionData (snd (trim_completed env t)) = completionData t
         \<or> completionData (snd (trim_completed env t))
             = assign (completionData t) ''lastUpdated'' (JNum (clock env))"
        using False Inr by (auto simp: trim_completed_def Let_def)
      then show ?thesis using assms touched by auto
    qed
  qed
qed

lemma cleanup_inv:
  assumes "count_invariant (completionData t)"
  shows "count_invariant (completionData (snd (cleanupOldData env t)))"
proof (cases "remove_old_access env t")
  case (Pair err t1)
  have i1: "count_invariant (completionData t1)"
    using remove_access_inv [OF assms, of env] Pair by simp
  show ?thesis
    using i1 trim_inv [OF i1, of env] Pair by (cases err) (simp_all add: cleanupOldData_def)
qed

lemma save_inv:
  "count_invariant (completionData t) \<Longrightarrow>
   count_invariant (completionData (snd (saveCompletionData frames env t)))"
proof (induction frames arbitrary: t)
  case 0
  then show ?case by simp
next
  case (Suc frames)
  have c: "count_invariant (completionData (snd (cleanupOldData env t')))"
    if "count_invariant (completionData t')" for t'
    using that by (rule cleanup_inv)
  have retry: "count_invariant (completionData (snd
      (case cleanupOldData env t' of
         (Some e, t) \<Rightarrow> (Inl e, t)
       | (None, t) \<Rightarrow> saveCompletionData frames env t)))"
    if "count_invariant (completionData t')" for t'
  proof (cases "cleanupOldData env t'")
    case (Pair err t2)
    have "count_invariant (completionData t2)" using c [OF that] Pair by simp
    then show ?thesis using Pair Suc.IH [of t2] by (cases err) simp_all
  qed
  define attempt where "attempt =
        (let dataString = json_stringify env (completionData t) in
         if length dataString > maxStorageSize then
           (case cleanupOldData env t of
              (Some e, t) \<Rightarrow> (Inl e, t)
            | (None, t) \<Rightarrow> saveCompletionData frames env t)
         else
           (case set_item env dataString of
              Some e \<Rightarrow> (Inl e, t)
            | None \<Rightarrow> (Inr True, t\<lparr>storage_item := Some dataString\<rparr>)))"
  have a: "count_invariant (completionData (snd attempt))"
    unfolding attempt_def Let_def using retry [OF Suc.prems] Suc.prems
    by (auto split: option.splits)
  have s: "saveCompletionData (Suc frames) env t =
     (case attempt of
        (Inr success, t) \<Rightarrow> (Inr success, t)
      | (Inl error, t) \<Rightarrow>
          if err_name error = ''QuotaExceededError'' then
            (case cleanupOldData env t of
               (Some e, t) \<Rightarrow> (Inl e, t)
             | (None, t) \<Rightarrow> saveCompletionData frames env t)
          else (Inr False, t))"
    by (simp add: attempt_def)
  show ?case
  proof (cases attempt)
    case (Pair r t1)
    have i1: "count_invariant (completionData t1)" using a Pair by simp
    show ?thesis
      unfolding s Pair using i1 retry [OF i1] by (cases r) auto
  qed
qed

lemma save_and_return_inv:
  "count_invariant (completionData t) \<Longrightarrow>
   count_invariant (completionData (snd (save_and_return frames env t)))"
  using save_inv [of t frames env]
  by (auto simp: save_and_return_def split: prod.splits sum.splits)

lemma getSessionId_data: "completionData (snd (getSessionId env t)) = completionData t"
  by (simp add: getSessionId_def Let_def)

lemma set_in_defined: "set_in target k v = Inr c \<Longrightarrow> \<not> nullish c"
  by (cases target) (auto simp: nullish_def)

lemma delete_in_defined: "delete_in target k = Inr c \<Longrightarrow> \<not> nullish c"
  by (cases target) (auto simp: nullish_def)

lemma recount_inv:
  assumes "d = JObj ps" "\<not> nullish (js_get d ''completed'')"
  shows "count_invariant
     (assign (assign d ''lastUpdated'' v) ''totalCompleted''
        (key_count (js_get (assign d ''lastUpdated'' v) ''completed'')))"
  using assms by (simp add: count_invariant_def map_of_alist_set)

lemma markCompleted_inv:
  assumes "count_invariant (completionData t)"
  shows "count_invariant (completionData (snd (markCompleted frames env simulationId metadata t)))"
proof -
  obtain ps where d: "completionData t = JObj ps" using inv_object [OF assms] by blast
  obtain sid t1 where g: "getSessionId env t = (sid, t1)" by (cases "getSessionId env t") auto
  have d1: "completionData t1 = JObj ps" using getSessionId_data [of env t] g d by simp
  let ?entry = "object_literal
               ([(''simulationId'', JStr simulationId), (''completedAt'', JNum (clock env)),
                 (''completedDate'', JStr (iso_string env (clock env))), (''sessionId'', JStr sid)]
                @ metadata)"
  show ?thesis
  proof (cases "set_in (js_get (JObj ps) ''completed'') simulationId ?entry")
    case (Inl e)
    then show ?thesis using assms g d d1 by (simp add: markCompleted_def)
  next
    case (Inr c)
    let ?d2 = "assign (JObj ps) ''completed'' c"
    have nn: "\<not> nullish (js_get ?d2 ''completed'')"
      using set_in_defined [OF Inr] by (simp add: map_of_alist_set)
    obtain qs where q: "?d2 = JObj qs" by simp
    have "count_invariant
       (assign (assign ?d2 ''lastUpdated'' (JNum (clock env))) ''totalCompleted''
          (key_count (js_get (assign ?d2 ''lastUpdated'' (JNum (clock env))) ''completed'')))"
      by (rule recount_inv [OF q nn])
    then show ?thesis
      using Inr g d1 save_and_return_inv
      by (simp add: markCompleted_def Let_def del: assign.simps)
  qed
qed

lemma markAccessed_inv:
  assumes "count_invariant (completionData t)"
  shows "count_invariant (completionData (snd (markAccessed frames env simulationId metadata t)))"
proof -
  obtain sid t1 where g: "getSessionId env t = (sid, t1)" by (cases "getSessionId env t") auto
  have i1: "count_invariant (completionData t1)"
    using getSessionId_data [of env t] g assms by simp
  have "count_invariant (assign (assign (completionData t1) ''accessed'' a) ''lastUpdated'' v)" for a v
    using i1 by (simp add: inv_assign_other)
  then show ?thesis
    using g i1 save_and_return_inv
    by (auto simp: markAccessed_def Let_def split: sum.splits simp del: assign.simps)
qed

lemma clearCompletion_inv:
  assumes "count_invariant (completionData t)"
  shows "count_invariant (completionData (snd (clearCompletion frames env simulationId t)))"
proof -
  obtain ps where d: "completionData t = JObj ps" using inv_object [OF assms] by blast
  show ?thesis
  proof (cases "delete_in (js_get (JObj ps) ''completed'') simulationId")
    case (Inl e)
    then show ?thesis using assms d by (simp add: clearCompletion_def)
  next
    case (Inr c)
    have cn: "\<not> nullish c" using delete_in_defined [OF Inr] .
    have same: "count_invariant
       (assign (assign (JObj ps) ''lastUpdated'' (JNum (clock env))) ''totalCompleted''
          (key_count (js_get (assign (JObj ps) ''lastUpdated'' (JNum (clock env))) ''completed'')))"
      if "c = js_get (JObj ps) ''completed''"
      using cn that by (intro recount_inv [of _ ps]) simp_all
    obtain qs where q: "assign (JObj ps) ''completed'' c = JObj qs" by simp
    have nn: "\<not> nullish (js_get (assign (JObj ps) ''completed'' c) ''completed'')"
      using cn by (simp add: map_of_alist_set)
    have changed: "count_invariant
       (assign (assign (assign (JObj ps) ''completed'' c) ''lastUpdated'' (JNum (clock env)))
          ''totalCompleted''
          (key_count (js_get (assign (assign (JObj ps) ''completed'' c) ''lastUpdated''
                                (JNum (clock env))) ''completed'')))"
      by (rule recount_inv [OF q nn])
    show ?thesis
    proof (cases "c = js_get (JObj ps) ''completed''")
      case True
      then show ?thesis
        using Inr d same [OF True] save_and_return_inv
        by (simp add: clearCompletion_def Let_def del: assign.simps js_get.simps)
    next
      case False
      then show ?thesis
        using Inr d changed save_and_return_inv
        by (simp add: clearCompletion_def Let_def del: assign.simps js_get.simps)
    qed
  qed
qed

lemma createEmptyData_inv: "count_invariant (fst (createEmptyData env t))"
  by (simp add: createEmptyData_def count_invariant_def nullish_def key_count_def split: prod.splits)

lemma clearAllData_inv:
  "count_invariant (completionData (snd (clearAllData frames env t)))"
  using createEmptyData_inv [of env t] save_and_return_inv
  by (cases "createEmptyData env t") (simp add: clearAllData_def)

lemma importData_inv:
  assumes "count_invariant (completionData t)"
    and "\<forall>d. json_parse env jsonData = Inr d \<longrightarrow> count_invariant d"
  shows "count_invariant (completionData (snd (importData frames env jsonData t)))"
  using assms save_and_return_inv
  by (auto simp: importData_def split: sum.splits)

text \<open>
  C10, as stated, fails for \<open>importData\<close>: it installs any data that passes
  \<open>validateDataStructure\<close> as it is, and that validation does not look at
  \<open>totalCompleted\<close>. Importing data with no completion and \<open>totalCompleted\<close> 5 into
  a new tracker succeeds and leaves \<open>totalCompleted\<close> at 5 with no key in \<open>completed\<close>.
\<close>

theorem C10_import_breaks_count:
  "count_invariant (completionData fresh_tracker)
   \<and> fst (importData 100 import_platform inflated_raw fresh_tracker) = True
   \<and> completionData (snd (importData 100 import_platform inflated_raw fresh_tracker)) = inflated_data
   \<and> js_get inflated_data ''totalCompleted'' = JNum 5
   \<and> entries (js_get inflated_data ''completed'') = []
   \<and> \<not> count_invariant (completionData (snd (importData 100 import_platform inflated_raw fresh_tracker)))"
proof -
  have v: "validateDataStructure inflated_data"
    by (simp add: validateDataStructure_def inflated_data_def)
  have p: "json_parse import_platform inflated_raw = Inr inflated_data"
    by (simp add: import_platform_def)
  have t: "json_text inflated_data = inflated_raw"
    by (simp add: inflated_data_def inflated_raw_def json_quote_def show_int_def show_nat.simps
        digit_char_def)
  have s: "saveCompletionData 100 import_platform (fresh_tracker\<lparr>completionData := inflated_data\<rparr>)
      = (Inr True, fresh_tracker\<lparr>completionData := inflated_data, storage_item := Some inflated_raw\<rparr>)"
    by (subst save_small)
      (simp_all add: import_platform_def test_platform_def maxStorageSize_def t, simp add: inflated_raw_def)
  have i: "importData 100 import_platform inflated_raw fresh_tracker
      = (True, fresh_tracker\<lparr>completionData := inflated_data, storage_item := Some inflated_raw\<rparr>)"
    by (simp add: importData_def p v save_and_return_def s)
  have f: "count_invariant (completionData fresh_tracker)"
    by (simp add: count_invariant_def fresh_tracker_def nullish_def key_count_def)
  have b: "\<not> count_invariant inflated_data"
    by (simp add: count_invariant_def inflated_data_def key_count_def)
  show ?thesis
    using f b by (simp add: i) (simp add: inflated_data_def)
qed

text \<open>
  C10, amended. Starting from any state in which \<open>totalCompleted\<close> is the number of
  keys of \<open>completed\<close>, this holds again after \<open>markCompleted\<close>, \<open>markAccessed\<close>,
  \<open>clearCompletion\<close>, \<open>clearAllData\<close> and \<open>cleanupOldData\<close>, whatever they return and
  however often saving cleans up; and after \<open>importData\<close> provided the imported data
  itself satisfies it.
\<close>

theorem C10_count_invariant:
  assumes "count_invariant (completionData t)"
  shows "count_invariant (completionData (snd (markCompleted frames env simulationId metadata t)))
     \<and> count_invariant (completionData (snd (markAccessed frames env simulationId metadata t)))
     \<and> count_invariant (completionData (snd (clearCompletion frames env simulationId t)))
     \<and> count_invariant (completionData (snd (clearAllData frames env t)))
     \<and> count_invariant (completionData (snd (cleanupOldData env t)))
     \<and> ((\<forall>d. json_parse env jsonData = Inr d \<longrightarrow> count_invariant d) \<longrightarrow>
          count_invariant (completionData (snd (importData frames env jsonData t))))"
  using markCompleted_inv [OF assms] markAccessed_inv [OF assms] clearCompletion_inv [OF assms]
    clearAllData_inv cleanup_inv [OF assms] importData_inv [OF assms]
  by blast

theorem C10_count_invariant_witness:
  "count_invariant (completionData fresh_tracker)
   \<and> count_invariant (completionData (snd (markCompleted 100 test_platform ''forces'' [] fresh_tracker)))
   \<and> js_get (completionData (snd (markCompleted 100 test_platform ''forces'' [] fresh_tracker)))
        ''totalCompleted'' = JNum 1
   \<and> count_invariant (completionData (snd (clearCompletion 100 test_platform ''forces'' fresh_tracker)))
   \<and> count_invariant (completionData (snd (importData 100 import_platform exported_raw fresh_tracker)))"
proof -
  have f: "count_invariant (completionData fresh_tracker)"
    by (simp add: count_invariant_def fresh_tracker_def nullish_def key_count_def)
  have o: "\<forall>d. json_parse import_platform exported_raw = Inr d \<longrightarrow> count_invariant d"
    by (simp add: import_platform_def exported_data_def exported_raw_def inflated_raw_def
        count_invariant_def nullish_def key_count_def)
  note c = C10_count_invariant [OF f, of 100 test_platform "''forces''" "[]"]
  note c' = C10_count_invariant [OF f, of 100 import_platform "''forces''" "[]" exported_raw]
  have m: "js_get (completionData (snd (markCompleted 100 test_platform ''forces'' [] fresh_tracker)))
        ''totalCompleted'' = JNum 1"
    by (simp add: markCompleted_def getSessionId_def fresh_tracker_def object_literal_def
        key_count_def save_and_return_def save_small test_platform_def maxStorageSize_def Let_def
        json_quote_def show_int_def show_nat.simps digit_char_def)
  show ?thesis using f c c' o m by blast
qed

end
